theory Spec2Isabelle
  imports Main
begin

section \<open>Data model of the metal driver\<close>

text \<open>
  Go strings are byte sequences: \<open>len\<close> counts bytes and slicing cuts bytes, which is
  what \<^typ>\<open>string\<close> (a list of 8-bit characters) gives.
\<close>

text \<open>Errors of the control-plane client; \<open>apierrors.IsNotFound\<close> recognises the first.\<close>

datatype api_error = NotFound | AlreadyExists | ApiFailure string

definition IsNotFound :: "api_error \<Rightarrow> bool" where
  "IsNotFound e = (e = NotFound)"

text \<open>gRPC-like status codes used by \<open>status.Error\<close>.\<close>

datatype code = InvalidArgument | Internal

text \<open>
  Every error value the driver can return: a client error handed on unchanged, the two
  \<open>errors.New\<close> values of the allocator, the wrapped create error, the deadline error
  of the poll helper, and \<open>status.Error\<close> values with their code and message.
\<close>

datatype error =
    ClientError api_error
  | ClaimNotReady
  | IpamRefNotSet
  | ErrorCreatingIP api_error
  | DeadlineExceeded
  | StatusError code string

record object_key =
  key_Namespace :: string
  key_Name :: string

record ipam_object_reference =
  ref_Name :: string
  ref_APIGroup :: string
  ref_Kind :: string

record ipam_config =
  MetadataKey :: string
  IPAMRef :: "ipam_object_reference option"

text \<open>\<open>corev1.TypedLocalObjectReference\<close>: the API group is a pointer.\<close>

record typed_local_object_reference =
  pool_APIGroup :: "string option"
  pool_Kind :: string
  pool_Name :: string

text \<open>\<open>capiv1beta1.IPAddressClaim\<close>, with the fields the driver reads or writes.\<close>

record ip_address_claim =
  claim_Name :: string
  claim_Namespace :: string
  claim_PoolRef :: typed_local_object_reference
  claim_AddressRef_Name :: string

text \<open>\<open>capiv1beta1.IPAddress\<close>: address, prefix length and gateway of its spec.\<close>

record ip_address =
  addr_Address :: string
  addr_Prefix :: int
  addr_Gateway :: string

text \<open>
  A value of type \<open>any\<close> inside a metadata tree. A \<open>map[string]any\<close> is an
  association list with distinct keys; a key keeps its position when its value changes and
  a new key goes to the end.
\<close>

datatype any = Str string | Num int | Obj "(string \<times> any) list"

type_synonym metadata = "(string \<times> any) list"

section \<open>The control-plane client\<close>

text \<open>
  The client talks to a remote API server that other actors change as well. It is a
  parameter of the model: a record of operations over a world \<open>'w\<close>, each returning its
  answer and the world after the call. \<open>Sleep\<close> is what the world does while the poll helper
  waits one interval. The driver's functions thread the world and a log of the calls they issue.
\<close>

datatype patch_type = Apply | MergePatch

record server_claim =
  sc_APIVersion :: string
  sc_Kind :: string
  sc_Name :: string
  sc_Namespace :: string
  sc_Labels :: "(string \<times> string) list"
  sc_Power :: string
  sc_MatchLabels :: "(string \<times> string) list"
  sc_IgnitionSecretRef :: string
  sc_Image :: string

record secret =
  secret_APIVersion :: string
  secret_Kind :: string
  secret_Name :: string
  secret_Namespace :: string
  secret_Data :: "(string \<times> string) list"

datatype object = ServerClaimObject server_claim | SecretObject secret

record 'w client =
  Get_claim :: "object_key \<Rightarrow> 'w \<Rightarrow> (api_error + ip_address_claim) \<times> 'w"
  Create_claim :: "ip_address_claim \<Rightarrow> 'w \<Rightarrow> (api_error + ip_address_claim) \<times> 'w"
  Get_address :: "object_key \<Rightarrow> 'w \<Rightarrow> (api_error + ip_address) \<times> 'w"
  Patch :: "object \<Rightarrow> patch_type \<Rightarrow> string \<Rightarrow> bool \<Rightarrow> 'w \<Rightarrow> api_error option \<times> 'w"
  Sleep :: "'w \<Rightarrow> 'w"

text \<open>One entry of the log per call of the client, in the order the calls are made.\<close>

datatype call =
    GetClaim object_key
  | CreateClaim ip_address_claim
  | GetAddress object_key
  | PatchObject object patch_type string bool

section \<open>Network identity allocation\<close>

definition DNS1123SubdomainMaxLength :: nat where
  "DNS1123SubdomainMaxLength = 253"

text \<open>The group of \<open>capiv1beta1.GroupVersion\<close>.\<close>

definition capi_Group :: string where
  "capi_Group = ''ipam.cluster.x-k8s.io''"

text \<open>Lines 99 to 103 of \<open>applyCapiIPAddress\<close>: the name of the claim.\<close>

definition ipAddrClaimName :: "string \<Rightarrow> string \<Rightarrow> string" where
  "ipAddrClaimName machineName metadataKey =
     (let name = machineName @ ''-'' @ metadataKey
      in if length name > DNS1123SubdomainMaxLength
         then take DNS1123SubdomainMaxLength name
         else name)"

text \<open>
  \<open>wait.PollUntilContextTimeout(ctx, 50ms, 340ms, true, condition)\<close> of the Kubernetes
  library runs the condition at once and then after every interval, and gives the context's
  deadline error when the timeout comes first. With the time spent inside the condition not
  counted, the condition runs at 0, 50, ..., 300 ms: \<open>poll_attempts\<close> times. The caller's
  context is taken as never cancelled.
\<close>

definition poll_interval_ms :: nat where
  "poll_interval_ms = 50"

definition poll_timeout_ms :: nat where
  "poll_timeout_ms = 340"

definition poll_attempts :: nat where
  "poll_attempts = (poll_timeout_ms - 1) div poll_interval_ms + 1"

text \<open>
  Lines 138 to 148: the poll with its condition. \<open>ipClaim\<close> is the variable the condition
  reads and \<open>Get\<close> fills; a \<open>Get\<close> that answers not-found leaves it as it was. The first
  number is how many runs of the condition are left before the deadline.
\<close>

fun poll_claim ::
  "'w client \<Rightarrow> object_key \<Rightarrow> nat \<Rightarrow> ip_address_claim \<Rightarrow> 'w \<Rightarrow>
     (error + ip_address_claim) \<times> 'w \<times> call list" where
  "poll_claim cl key 0 ipClaim w = (Inl DeadlineExceeded, w, [])"
| "poll_claim cl key (Suc n) ipClaim w =
     (case Get_claim cl key w of
        (Inl e, w') \<Rightarrow>
          if \<not> IsNotFound e then (Inl (ClientError e), w', [GetClaim key])
          else if claim_AddressRef_Name ipClaim \<noteq> [] then (Inr ipClaim, w', [GetClaim key])
          else (case poll_claim cl key n ipClaim (Sleep cl w') of
                  (r, w'', calls) \<Rightarrow> (r, w'', GetClaim key # calls))
      | (Inr got, w') \<Rightarrow>
          if claim_AddressRef_Name got \<noteq> [] then (Inr got, w', [GetClaim key])
          else (case poll_claim cl key n got (Sleep cl w') of
                  (r, w'', calls) \<Rightarrow> (r, w'', GetClaim key # calls)))"

text \<open>Lines 154 to 165: fetch the address the claim is bound to and build the metadata.\<close>

definition resolve_address ::
  "'w client \<Rightarrow> ipam_config \<Rightarrow> ip_address_claim \<Rightarrow> 'w \<Rightarrow>
     (error + metadata) \<times> 'w \<times> call list" where
  "resolve_address cl networkRef ipClaim w =
     (let ipAddrKey = \<lparr>key_Namespace = claim_Namespace ipClaim,
                        key_Name = claim_AddressRef_Name ipClaim\<rparr>
      in case Get_address cl ipAddrKey w of
           (Inl e, w') \<Rightarrow> (Inl (ClientError e), w', [GetAddress ipAddrKey])
         | (Inr ipAddr, w') \<Rightarrow>
             (Inr [(MetadataKey networkRef,
                    Obj [(''ip'', Str (addr_Address ipAddr)),
                         (''prefix'', Num (addr_Prefix ipAddr)),
                         (''gateway'', Str (addr_Gateway ipAddr))])],
              w', [GetAddress ipAddrKey]))"

text \<open>Lines 120 to 132: the claim object that is created.\<close>

definition new_claim :: "object_key \<Rightarrow> ipam_object_reference \<Rightarrow> ip_address_claim" where
  "new_claim ipAddrClaimKey r =
     \<lparr>claim_Name = key_Name ipAddrClaimKey,
      claim_Namespace = key_Namespace ipAddrClaimKey,
      claim_PoolRef = \<lparr>pool_APIGroup = Some (ref_APIGroup r),
                       pool_Kind = ref_Kind r,
                       pool_Name = ref_Name r\<rparr>,
      claim_AddressRef_Name = []\<rparr>"

text \<open>Line 105: the key of the claim, in the driver's namespace.\<close>

definition claim_key :: "string \<Rightarrow> string \<Rightarrow> ipam_config \<Rightarrow> object_key" where
  "claim_key metalNamespace machineName networkRef =
     \<lparr>key_Namespace = metalNamespace,
      key_Name = ipAddrClaimName machineName (MetadataKey networkRef)\<rparr>"

text \<open>
  \<open>applyCapiIPAddress\<close>. The second argument is the driver's \<open>metalNamespace\<close>. A
  successful \<open>Create\<close> stores the server's answer in \<open>ipClaim\<close>.
\<close>

definition applyCapiIPAddress ::
  "'w client \<Rightarrow> string \<Rightarrow> ipam_config \<Rightarrow> string \<Rightarrow> 'w \<Rightarrow>
     (error + metadata) \<times> 'w \<times> call list" where
  "applyCapiIPAddress cl metalNamespace networkRef machineName w =
     (let ipAddrClaimKey = claim_key metalNamespace machineName networkRef
      in case Get_claim cl ipAddrClaimKey w of
           (Inr found, w1) \<Rightarrow>
             if claim_AddressRef_Name found = []
             then (Inl ClaimNotReady, w1, [GetClaim ipAddrClaimKey])
             else (case resolve_address cl networkRef found w1 of
                     (r, w2, calls) \<Rightarrow> (r, w2, GetClaim ipAddrClaimKey # calls))
         | (Inl e, w1) \<Rightarrow>
             if \<not> IsNotFound e then (Inl (ClientError e), w1, [GetClaim ipAddrClaimKey])
             else (case IPAMRef networkRef of
                     None \<Rightarrow> (Inl IpamRefNotSet, w1, [GetClaim ipAddrClaimKey])
                   | Some r \<Rightarrow>
                       (let ipClaim = new_claim ipAddrClaimKey r
                        in case Create_claim cl ipClaim w1 of
                             (Inl e', w2) \<Rightarrow>
                               (Inl (ErrorCreatingIP e'), w2,
                                [GetClaim ipAddrClaimKey, CreateClaim ipClaim])
                           | (Inr created, w2) \<Rightarrow>
                               (case poll_claim cl ipAddrClaimKey poll_attempts created w2 of
                                  (Inl e'', w3, calls) \<Rightarrow>
                                    (Inl e'', w3,
                                     GetClaim ipAddrClaimKey # CreateClaim ipClaim # calls)
                                | (Inr bound, w3, calls) \<Rightarrow>
                                    (case resolve_address cl networkRef bound w3 of
                                       (r', w4, calls') \<Rightarrow>
                                         (r', w4,
                                          GetClaim ipAddrClaimKey # CreateClaim ipClaim #
                                          calls @ calls'))))))"

text \<open>
  The loop of \<open>applyIPAddresses\<close> (lines 85 to 94), with the metadata collected so far.
  A reference is handled only when its \<open>IPAMRef\<close> is set and names the cluster-API group.
\<close>

fun applyIPAddresses_loop ::
  "'w client \<Rightarrow> string \<Rightarrow> string \<Rightarrow> metadata list \<Rightarrow> ipam_config list \<Rightarrow> 'w \<Rightarrow>
     (error + metadata list) \<times> 'w \<times> call list" where
  "applyIPAddresses_loop cl ns machineName allAddressMetaData [] w =
     (Inr allAddressMetaData, w, [])"
| "applyIPAddresses_loop cl ns machineName allAddressMetaData (networkRef # rest) w =
     (if (case IPAMRef networkRef of None \<Rightarrow> False | Some r \<Rightarrow> ref_APIGroup r = capi_Group)
      then (case applyCapiIPAddress cl ns networkRef machineName w of
              (Inl e, w', calls) \<Rightarrow> (Inl e, w', calls)
            | (Inr addressMetaData, w', calls) \<Rightarrow>
                (case applyIPAddresses_loop cl ns machineName
                        (allAddressMetaData @ [addressMetaData]) rest w' of
                   (r, w'', calls') \<Rightarrow> (r, w'', calls @ calls')))
      else applyIPAddresses_loop cl ns machineName allAddressMetaData rest w)"

definition applyIPAddresses ::
  "'w client \<Rightarrow> string \<Rightarrow> string \<Rightarrow> ipam_config list \<Rightarrow> 'w \<Rightarrow>
     (error + metadata list) \<times> 'w \<times> call list" where
  "applyIPAddresses cl ns machineName IPAMConfig w =
     applyIPAddresses_loop cl ns machineName [] IPAMConfig w"

section \<open>Composing the metadata\<close>

primrec set_key :: "string \<Rightarrow> any \<Rightarrow> metadata \<Rightarrow> metadata" where
  "set_key k v [] = [(k, v)]"
| "set_key k v (p # ps) = (if fst p = k then (k, v) # ps else p # set_key k v ps)"

text \<open>
  Modelled from the spec: \<open>mergo.Merge\<close> with \<open>mergo.WithOverride\<close>, a function of the
  third-party library \<open>github.com/imdario/mergo\<close> whose code is not part of the sources.
  The spec's words are: the base tree is overridden, key by key recursively, by the
  fragment; for overlapping leaf keys the fragment wins. So a key of the fragment whose
  value is a map, on a base value that is a map, is merged recursively, and in every other
  case the fragment's value is stored under the key.
\<close>

function Merge :: "metadata \<Rightarrow> metadata \<Rightarrow> metadata" where
  "Merge dst [] = dst"
| "Merge dst ((k, v) # src) =
     Merge (case (map_of dst k, v) of
              (Some (Obj d), Obj s) \<Rightarrow> set_key k (Obj (Merge d s)) dst
            | _ \<Rightarrow> set_key k v dst) src"
  by pat_completeness auto
termination
  by (relation "measure (\<lambda>(dst, src). size_list (size_prod (\<lambda>_. 0) size) src)") auto

text \<open>
  Lines 176 to 186 of \<open>applyIgnition\<close>: a nil metadata map of the provider spec becomes an
  empty map, then every fragment is merged into it in the order of the list.
\<close>

definition merge_addressMetaData :: "metadata option \<Rightarrow> metadata list \<Rightarrow> metadata" where
  "merge_addressMetaData base addressMetaData =
     foldl Merge (case base of None \<Rightarrow> [] | Some m \<Rightarrow> m) addressMetaData"

text \<open>The value under a path of keys in a metadata tree.\<close>

fun at_path :: "metadata \<Rightarrow> string list \<Rightarrow> any option" where
  "at_path m [] = Some (Obj m)"
| "at_path m [k] = map_of m k"
| "at_path m (k # ks) = (case map_of m k of Some (Obj sub) \<Rightarrow> at_path sub ks | _ \<Rightarrow> None)"

fun is_leaf :: "any \<Rightarrow> bool" where
  "is_leaf (Obj m) = False"
| "is_leaf v = True"

section \<open>Creating a machine\<close>

record machine_class =
  Provider :: string
  ProviderSpec_Raw :: string

record machine =
  machine_Name :: string

record create_machine_request =
  MachineClass :: "machine_class option"
  Machine :: "machine option"
  Secret :: "secret option"

record create_machine_response =
  ProviderID :: string
  NodeName :: string

text \<open>\<open>apiv1alpha1.ProviderSpec\<close>, as the driver reads it.\<close>

record provider_spec =
  Image :: string
  Ignition :: string
  IgnitionOverride :: bool
  Metadata :: "metadata option"
  IPAMConfig :: "ipam_config list"
  Labels :: "(string \<times> string) list"
  DnsServers :: "string list"
  ServerLabels :: "(string \<times> string) list"

text \<open>\<open>ignition.Config\<close>, the input of the renderer.\<close>

record ignition_config =
  cfg_Hostname :: string
  cfg_UserData :: string
  cfg_MetaData :: metadata
  cfg_Ignition :: string
  cfg_DnsServers :: "string list"
  cfg_IgnitionOverride :: bool

text \<open>
  What the driver uses and the sources do not define: the constants \<open>ProviderName\<close> and
  \<open>fieldOwner\<close>, the namespace the driver was built with, the JSON decoder of the provider
  spec (its error text, or the spec), the validator (its list of errors), the renderer
  \<open>ignition.File\<close>, and the two naming helpers. They are parameters.
\<close>

record deps =
  ProviderName :: string
  fieldOwner :: string
  metalNamespace :: string
  json_Unmarshal :: "string \<Rightarrow> string + provider_spec"
  ValidateProviderSpecAndSecret :: "provider_spec \<Rightarrow> secret \<Rightarrow> string list"
  ignition_File :: "ignition_config \<Rightarrow> string + string"
  getIgnitionNameForMachine :: "string \<Rightarrow> string"
  getProviderIDForServerClaim :: "server_claim \<Rightarrow> string"

text \<open>The text of a client error, as \<open>err.Error()\<close> gives it.\<close>

fun api_error_text :: "api_error \<Rightarrow> string" where
  "api_error_text NotFound = ''not found''"
| "api_error_text AlreadyExists = ''already exists''"
| "api_error_text (ApiFailure msg) = msg"

definition isEmptyCreateRequest :: "create_machine_request option \<Rightarrow> bool" where
  "isEmptyCreateRequest req =
     (case req of
        None \<Rightarrow> True
      | Some r \<Rightarrow> MachineClass r = None \<or> Machine r = None \<or> Secret r = None)"

text \<open>How \<open>%v\<close> prints a list of errors: in brackets, separated by spaces.\<close>

fun join_errors :: "string list \<Rightarrow> string" where
  "join_errors [] = []"
| "join_errors [e] = e"
| "join_errors (e # es) = e @ '' '' @ join_errors es"

definition validateProviderSpecAndSecret ::
  "deps \<Rightarrow> machine_class option \<Rightarrow> secret \<Rightarrow> error + provider_spec" where
  "validateProviderSpecAndSecret d class sec =
     (case class of
        None \<Rightarrow> Inl (StatusError Internal ''MachineClass in ProviderSpec is not set'')
      | Some c \<Rightarrow>
          (case json_Unmarshal d (ProviderSpec_Raw c) of
             Inl msg \<Rightarrow> Inl (StatusError Internal msg)
           | Inr providerSpec \<Rightarrow>
               (let validationErr = ValidateProviderSpecAndSecret d providerSpec sec
                in if validationErr \<noteq> []
                   then Inl (StatusError Internal
                          (''failed to validate provider spec and secret: ['' @
                           join_errors validationErr @ '']''))
                   else Inr providerSpec)))"

text \<open>
  \<open>applyIgnition\<close> makes no call of the client: it builds the secret object. The merge
  of the model cannot fail, so the error branch of line 183 has no counterpart.
\<close>

definition applyIgnition ::
  "deps \<Rightarrow> machine \<Rightarrow> secret \<Rightarrow> provider_spec \<Rightarrow> metadata list \<Rightarrow> error + secret" where
  "applyIgnition d m reqSecret providerSpec addressMetaData =
     (case map_of (secret_Data reqSecret) ''userData'' of
        None \<Rightarrow>
          Inl (StatusError Internal
                (''failed to find user-data in machine secret '' @
                 secret_Namespace reqSecret @ ''/'' @ secret_Name reqSecret))
      | Some userData \<Rightarrow>
          (let config = \<lparr>cfg_Hostname = machine_Name m,
                         cfg_UserData = userData,
                         cfg_MetaData =
                           merge_addressMetaData (Metadata providerSpec) addressMetaData,
                         cfg_Ignition = Ignition providerSpec,
                         cfg_DnsServers = DnsServers providerSpec,
                         cfg_IgnitionOverride = IgnitionOverride providerSpec\<rparr>
           in case ignition_File d config of
                Inl msg \<Rightarrow>
                  Inl (StatusError Internal
                        (''failed to create ignition file for machine '' @ machine_Name m @
                         '': '' @ msg))
              | Inr ignitionContent \<Rightarrow>
                  Inr \<lparr>secret_APIVersion = ''v1'',
                       secret_Kind = ''Secret'',
                       secret_Name = getIgnitionNameForMachine d (machine_Name m),
                       secret_Namespace = metalNamespace d,
                       secret_Data = [(''ignition'', ignitionContent)]\<rparr>))"

text \<open>Lines 221 to 240: the reservation object.\<close>

definition make_serverClaim :: "deps \<Rightarrow> machine \<Rightarrow> provider_spec \<Rightarrow> secret \<Rightarrow> server_claim" where
  "make_serverClaim d m providerSpec ignitionSecret =
     \<lparr>sc_APIVersion = ''metal.ironcore.dev/v1alpha1'',
      sc_Kind = ''ServerClaim'',
      sc_Name = machine_Name m,
      sc_Namespace = metalNamespace d,
      sc_Labels = Labels providerSpec,
      sc_Power = ''On'',
      sc_MatchLabels = ServerLabels providerSpec,
      sc_IgnitionSecretRef = secret_Name ignitionSecret,
      sc_Image = Image providerSpec\<rparr>"

text \<open>
  \<open>applyServerClaim\<close>, lines 246 to 254: two patches of type \<open>client.Apply\<close> with the
  field owner and \<open>client.ForceOwnership\<close>, in the order of the source.
\<close>

definition applyServerClaim ::
  "deps \<Rightarrow> 'w client \<Rightarrow> machine \<Rightarrow> provider_spec \<Rightarrow> secret \<Rightarrow> 'w \<Rightarrow>
     (error + server_claim) \<times> 'w \<times> call list" where
  "applyServerClaim d cl m providerSpec ignitionSecret w =
     (let serverClaim = make_serverClaim d m providerSpec ignitionSecret;
          patch1 = PatchObject (ServerClaimObject serverClaim) Apply (fieldOwner d) True;
          patch2 = PatchObject (SecretObject ignitionSecret) Apply (fieldOwner d) True
      in case Patch cl (ServerClaimObject serverClaim) Apply (fieldOwner d) True w of
           (Some e, w1) \<Rightarrow>
             (Inl (StatusError Internal (''error applying metal machine: '' @ api_error_text e)),
              w1, [patch1])
         | (None, w1) \<Rightarrow>
             (case Patch cl (SecretObject ignitionSecret) Apply (fieldOwner d) True w1 of
                (Some e, w2) \<Rightarrow>
                  (Inl (StatusError Internal
                         (''error applying ignition secret: '' @ api_error_text e)),
                   w2, [patch1, patch2])
              | (None, w2) \<Rightarrow> (Inr serverClaim, w2, [patch1, patch2])))"

definition CreateMachine ::
  "deps \<Rightarrow> 'w client \<Rightarrow> create_machine_request option \<Rightarrow> 'w \<Rightarrow>
     (error + create_machine_response) \<times> 'w \<times> call list" where
  "CreateMachine d cl req w =
     (if isEmptyCreateRequest req
      then (Inl (StatusError InvalidArgument ''received empty request''), w, [])
      else
        (let r = the req; class = the (MachineClass r);
             m = the (Machine r); sec = the (Secret r)
         in if Provider class \<noteq> ProviderName d
            then (Inl (StatusError InvalidArgument
                        (''requested provider '' @ [CHR 0x27] @ Provider class @ [CHR 0x27] @
                         '' is not supported by the driver '' @ [CHR 0x27] @ ProviderName d @
                         [CHR 0x27])), w, [])
            else
              (case validateProviderSpecAndSecret d (MachineClass r) sec of
                 Inl e \<Rightarrow> (Inl e, w, [])
               | Inr providerSpec \<Rightarrow>
                   (case applyIPAddresses cl (metalNamespace d) (machine_Name m)
                           (IPAMConfig providerSpec) w of
                      (Inl e, w1, calls1) \<Rightarrow> (Inl e, w1, calls1)
                    | (Inr addressMetaData, w1, calls1) \<Rightarrow>
                        (case applyIgnition d m sec providerSpec addressMetaData of
                           Inl e \<Rightarrow> (Inl e, w1, calls1)
                         | Inr ignitionSecret \<Rightarrow>
                             (case applyServerClaim d cl m providerSpec ignitionSecret w1 of
                                (Inl e, w2, calls2) \<Rightarrow> (Inl e, w2, calls1 @ calls2)
                              | (Inr serverClaim, w2, calls2) \<Rightarrow>
                                  (Inr \<lparr>ProviderID = getProviderIDForServerClaim d serverClaim,
                                        NodeName = sc_Name serverClaim\<rparr>,
                                   w2, calls1 @ calls2)))))))"

section \<open>Reloading the client\<close>

text \<open>
  \<open>Provider\<close> of \<open>pkg/client/provider.go\<close>: the client handle (nil before the first
  client is built) and the path of the kubeconfig. The mutex and the scheme carry no data a
  sequential run can observe.
\<close>

record 'c provider =
  Client :: "'c option"
  kubeconfigPath :: string

text \<open>
  The file system and the client libraries at the moment of one event: reading a file,
  \<open>clientcmd.Load\<close>, \<open>ClientConfig()\<close> of the client configuration, and \<open>client.New\<close>.
  Each gives the text of its error or its result.
\<close>

record ('k, 'r, 'c) libs =
  os_ReadFile :: "string \<Rightarrow> string + string"
  clientcmd_Load :: "string \<Rightarrow> string + 'k"
  ClientConfig :: "'k \<Rightarrow> string + 'r"
  client_New :: "'r \<Rightarrow> string + 'c"

definition getClientConfig :: "('k, 'r, 'c) libs \<Rightarrow> 'c provider \<Rightarrow> string + 'k" where
  "getClientConfig l p =
     (case os_ReadFile l (kubeconfigPath p) of
        Inl err \<Rightarrow>
          Inl (''failed to read metal kubeconfig '' @ kubeconfigPath p @ '': '' @ err)
      | Inr kubeconfigData \<Rightarrow>
          (case clientcmd_Load l kubeconfigData of
             Inl err \<Rightarrow> Inl (''unable to read metal cluster kubeconfig: '' @ err)
           | Inr kubeconfig \<Rightarrow> Inr kubeconfig))"

text \<open>\<open>setMetalClient\<close>: the error, if any, and the provider afterwards.\<close>

definition setMetalClient ::
  "('k, 'r, 'c) libs \<Rightarrow> 'c provider \<Rightarrow> 'k \<Rightarrow> string option \<times> 'c provider" where
  "setMetalClient l p clientConfig =
     (case ClientConfig l clientConfig of
        Inl err \<Rightarrow> (Some (''unable to get metal cluster rest config: '' @ err), p)
      | Inr restConfig \<Rightarrow>
          (case client_New l restConfig of
             Inl err \<Rightarrow> (Some (''failed to create client: '' @ err), p)
           | Inr newClient \<Rightarrow> (None, p\<lparr>Client := Some newClient\<rparr>)))"

text \<open>
  One turn of the watcher loop of \<open>reloadMetalClientOnConfigChange\<close> on an event for the
  file \<open>name\<close> (lines 127 to 141): the provider afterwards and the lines logged after the
  event line.
\<close>

definition on_event ::
  "('k, 'r, 'c) libs \<Rightarrow> 'c provider \<Rightarrow> string \<Rightarrow> 'c provider \<times> string list" where
  "on_event l p name =
     (if name \<noteq> kubeconfigPath p then (p, [])
      else (case getClientConfig l p of
              Inl err \<Rightarrow> (p, [''couldn't get client config when config changed: '' @ err])
            | Inr clientConfig \<Rightarrow>
                (case setMetalClient l p clientConfig of
                   (Some err, p') \<Rightarrow>
                     (p', [''couldn't update metal client when config changed: '' @ err,
                           ''change of kubeconfig was handled successfully''])
                 | (None, p') \<Rightarrow>
                     (p', [''change of kubeconfig was handled successfully'']))))"

section \<open>Reading the log of calls\<close>

fun is_patch :: "call \<Rightarrow> bool" where
  "is_patch (PatchObject obj pt owner force) = True"
| "is_patch c = False"

fun is_create :: "call \<Rightarrow> bool" where
  "is_create (CreateClaim c) = True"
| "is_create c = False"

fun is_read :: "call \<Rightarrow> bool" where
  "is_read (GetClaim k) = True"
| "is_read (GetAddress k) = True"
| "is_read c = False"

text \<open>A patch that is a server-side apply with forced ownership under the given owner.\<close>

fun is_forced_apply :: "string \<Rightarrow> call \<Rightarrow> bool" where
  "is_forced_apply owner (PatchObject obj pt owner' force) =
     (pt = Apply \<and> owner' = owner \<and> force)"
| "is_forced_apply owner c = False"

text \<open>The kinds of the objects patched, in the order of the patches.\<close>

fun patched_kinds :: "call list \<Rightarrow> string list" where
  "patched_kinds [] = []"
| "patched_kinds (PatchObject (ServerClaimObject sc) pt owner force # cs) =
     sc_Kind sc # patched_kinds cs"
| "patched_kinds (PatchObject (SecretObject se) pt owner force # cs) =
     secret_Kind se # patched_kinds cs"
| "patched_kinds (c # cs) = patched_kinds cs"

text \<open>
  What the lookups of a claim answer at the next \<open>n\<close> runs of the poll condition, the
  world going through each lookup and each wait.
\<close>

fun poll_answers ::
  "'w client \<Rightarrow> object_key \<Rightarrow> nat \<Rightarrow> 'w \<Rightarrow> (api_error + ip_address_claim) list" where
  "poll_answers cl key 0 w = []"
| "poll_answers cl key (Suc n) w =
     (case Get_claim cl key w of (a, w') \<Rightarrow> a # poll_answers cl key n (Sleep cl w'))"

text \<open>An answer that shows no bound claim: not found, or a claim without address.\<close>

fun unbound_answer :: "api_error + ip_address_claim \<Rightarrow> bool" where
  "unbound_answer (Inl e) = IsNotFound e"
| "unbound_answer (Inr c) = (claim_AddressRef_Name c = [])"

text \<open>Maps of the Go program have each key once, at every level.\<close>

fun wf_any :: "any \<Rightarrow> bool" where
  "wf_any (Obj m) = (distinct (map fst m) \<and> (\<forall>p \<in> set m. wf_any (snd p)))"
| "wf_any v = True"

section \<open>A control plane to run the driver on\<close>

text \<open>
  A small control plane in memory: the claims and addresses it stores, the objects applied
  to it, and an allocator that binds every unbound claim to the address of the claim's own
  name once the given number of waits has passed (never, for \<open>None\<close>).
\<close>

record sim =
  sim_claims :: "(object_key \<times> ip_address_claim) list"
  sim_addresses :: "(object_key \<times> ip_address) list"
  sim_applied :: "object list"
  sim_allocator :: "nat option"

definition sim_bind :: "ip_address_claim \<Rightarrow> ip_address_claim" where
  "sim_bind c =
     (if claim_AddressRef_Name c = [] then c\<lparr>claim_AddressRef_Name := claim_Name c\<rparr> else c)"

definition sim_client :: "sim client" where
  "sim_client =
     \<lparr>Get_claim = (\<lambda>key w.
        case map_of (sim_claims w) key of
          None \<Rightarrow> (Inl NotFound, w)
        | Some c \<Rightarrow> (Inr c, w)),
      Create_claim = (\<lambda>c w.
        let key = \<lparr>key_Namespace = claim_Namespace c, key_Name = claim_Name c\<rparr>
        in case map_of (sim_claims w) key of
             Some c' \<Rightarrow> (Inl AlreadyExists, w)
           | None \<Rightarrow> (Inr c, w\<lparr>sim_claims := sim_claims w @ [(key, c)]\<rparr>)),
      Get_address = (\<lambda>key w.
        case map_of (sim_addresses w) key of
          None \<Rightarrow> (Inl NotFound, w)
        | Some a \<Rightarrow> (Inr a, w)),
      Patch = (\<lambda>obj pt owner force w. (None, w\<lparr>sim_applied := sim_applied w @ [obj]\<rparr>)),
      Sleep = (\<lambda>w.
        case sim_allocator w of
          None \<Rightarrow> w
        | Some 0 \<Rightarrow> w\<lparr>sim_claims := map (\<lambda>(k, c). (k, sim_bind c)) (sim_claims w)\<rparr>
        | Some (Suc n) \<Rightarrow> w\<lparr>sim_allocator := Some n\<rparr>)\<rparr>"

text \<open>
  The scenario of the spec: machine \<open>m1\<close>, one network reference with key \<open>eth0\<close> and
  pool \<open>pool-a\<close>, the address \<open>10.0.0.5/24\<close> with gateway \<open>10.0.0.1\<close>.
\<close>

definition eth0_ref :: ipam_config where
  "eth0_ref = \<lparr>MetadataKey = ''eth0'',
     IPAMRef = Some \<lparr>ref_Name = ''pool-a'', ref_APIGroup = capi_Group,
                     ref_Kind = ''GlobalInClusterIPPool''\<rparr>\<rparr>"

definition eth0_key :: object_key where
  "eth0_key = \<lparr>key_Namespace = ''metal'', key_Name = ''m1-eth0''\<rparr>"

definition eth0_address :: ip_address where
  "eth0_address = \<lparr>addr_Address = ''10.0.0.5'', addr_Prefix = 24, addr_Gateway = ''10.0.0.1''\<rparr>"

text \<open>The control plane before the first call, with an allocator that acts after \<open>n\<close> waits.\<close>

definition sim_start :: "nat option \<Rightarrow> sim" where
  "sim_start n = \<lparr>sim_claims = [], sim_addresses = [(eth0_key, eth0_address)],
     sim_applied = [], sim_allocator = n\<rparr>"

definition m1_spec :: "ipam_config list \<Rightarrow> provider_spec" where
  "m1_spec refs = \<lparr>Image = ''gardenlinux'', Ignition = [], IgnitionOverride = False,
     Metadata = None, IPAMConfig = refs, Labels = [], DnsServers = [], ServerLabels = []\<rparr>"

definition m1_deps :: "ipam_config list \<Rightarrow> deps" where
  "m1_deps refs = \<lparr>ProviderName = ''ironcore-metal'', fieldOwner = ''mcm.ironcore.dev/field-owner'',
     metalNamespace = ''metal'',
     json_Unmarshal = (\<lambda>raw. Inr (m1_spec refs)),
     ValidateProviderSpecAndSecret = (\<lambda>providerSpec sec. []),
     ignition_File = (\<lambda>config. Inr ''ignition-content''),
     getIgnitionNameForMachine = (\<lambda>name. name @ ''-ignition''),
     getProviderIDForServerClaim = (\<lambda>sc. ''ironcore-metal://'' @ sc_Namespace sc @ ''/'' @ sc_Name sc)\<rparr>"

definition m1_request :: "create_machine_request option" where
  "m1_request = Some \<lparr>
     MachineClass = Some \<lparr>Provider = ''ironcore-metal'', ProviderSpec_Raw = ''{}''\<rparr>,
     Machine = Some \<lparr>machine_Name = ''m1''\<rparr>,
     Secret = Some \<lparr>secret_APIVersion = ''v1'', secret_Kind = ''Secret'',
       secret_Name = ''m1-secret'', secret_Namespace = ''default'',
       secret_Data = [(''userData'', ''#cloud-config'')]\<rparr>\<rparr>"

text \<open>Further states of the control plane and further network references.\<close>

definition eth0_claim :: "string \<Rightarrow> ip_address_claim" where
  "eth0_claim addressRef =
     \<lparr>claim_Name = ''m1-eth0'', claim_Namespace = ''metal'',
      claim_PoolRef = \<lparr>pool_APIGroup = Some capi_Group, pool_Kind = ''GlobalInClusterIPPool'',
                       pool_Name = ''pool-a''\<rparr>,
      claim_AddressRef_Name = addressRef\<rparr>"

definition sim_with_claim :: "string \<Rightarrow> nat option \<Rightarrow> sim" where
  "sim_with_claim addressRef n =
     \<lparr>sim_claims = [(eth0_key, eth0_claim addressRef)],
      sim_addresses = [(eth0_key, eth0_address)],
      sim_applied = [], sim_allocator = n\<rparr>"

definition bare_ref :: ipam_config where
  "bare_ref = \<lparr>MetadataKey = ''eth0'', IPAMRef = None\<rparr>"

definition other_group_ref :: ipam_config where
  "other_group_ref = \<lparr>MetadataKey = ''eth0'',
     IPAMRef = Some \<lparr>ref_Name = ''pool-a'', ref_APIGroup = ''ipam.metal.ironcore.dev'',
                     ref_Kind = ''Prefix''\<rparr>\<rparr>"

text \<open>
  A provider with a working client, and two states of the file system and the API server
  at a rotation: the kubeconfig cannot be read, and the server refuses the new client.
\<close>

definition working_provider :: "nat provider" where
  "working_provider = \<lparr>Client = Some 1, kubeconfigPath = ''/etc/metal/kubeconfig''\<rparr>"

definition unreadable_file_libs :: "(string, string, nat) libs" where
  "unreadable_file_libs =
     \<lparr>os_ReadFile = (\<lambda>path. Inl ''no such file or directory''),
      clientcmd_Load = (\<lambda>data. Inr data),
      ClientConfig = (\<lambda>kubeconfig. Inr kubeconfig),
      client_New = (\<lambda>restConfig. Inr 2)\<rparr>"

definition unreachable_server_libs :: "(string, string, nat) libs" where
  "unreachable_server_libs =
     \<lparr>os_ReadFile = (\<lambda>path. Inr ''apiVersion: v1''),
      clientcmd_Load = (\<lambda>data. Inr data),
      ClientConfig = (\<lambda>kubeconfig. Inr kubeconfig),
      client_New = (\<lambda>restConfig. Inl ''no route to host'')\<rparr>"

text \<open>Two more: the kubeconfig does not parse, and it yields no REST configuration.\<close>

definition unparsable_file_libs :: "(string, string, nat) libs" where
  "unparsable_file_libs =
     \<lparr>os_ReadFile = (\<lambda>path. Inr ''apiVersion: v1''),
      clientcmd_Load = (\<lambda>data. Inl ''yaml: line 1: did not find expected key''),
      ClientConfig = (\<lambda>kubeconfig. Inr kubeconfig),
      client_New = (\<lambda>restConfig. Inr 2)\<rparr>"

definition no_context_libs :: "(string, string, nat) libs" where
  "no_context_libs =
     \<lparr>os_ReadFile = (\<lambda>path. Inr ''apiVersion: v1''),
      clientcmd_Load = (\<lambda>data. Inr data),
      ClientConfig = (\<lambda>kubeconfig. Inl ''invalid configuration: no configuration has been provided''),
      client_New = (\<lambda>restConfig. Inr 2)\<rparr>"

text \<open>
  A control plane on which a second, identical request runs at the same time: it creates
  the claim \<open>m1-eth0\<close> right after this request has looked the claim up.
\<close>

definition racing_client :: "sim client" where
  "racing_client = sim_client\<lparr>Get_claim := (\<lambda>key w.
     case Get_claim sim_client key w of
       (a, w') \<Rightarrow> (a, snd (Create_claim sim_client (eth0_claim []) w')))\<rparr>"

section \<open>The calls of the allocator and of the appliers\<close>

lemma poll_claim_calls:
  "poll_claim cl key n c w = (r, w', calls) \<Longrightarrow> set calls \<subseteq> {GetClaim key}"
proof (induction n arbitrary: c w r w' calls)
  case 0
  then show ?case by simp
next
  case (Suc n)
  obtain a w1 where g: "Get_claim cl key w = (a, w1)" by (cases "Get_claim cl key w")
  show ?case
  proof (cases a)
    case (Inl e)
    show ?thesis
    proof (cases "\<not> IsNotFound e \<or> claim_AddressRef_Name c \<noteq> []")
      case True
      with Suc.prems g Inl show ?thesis by (auto split: if_splits)
    next
      case False
      obtain r2 w2 calls2 where p: "poll_claim cl key n c (Sleep cl w1) = (r2, w2, calls2)"
        by (cases "poll_claim cl key n c (Sleep cl w1)")
      from Suc.IH[OF p] Suc.prems g Inl False p show ?thesis by auto
    qed
  next
    case (Inr got)
    show ?thesis
    proof (cases "claim_AddressRef_Name got \<noteq> []")
      case True
      with Suc.prems g Inr show ?thesis by auto
    next
      case False
      obtain r2 w2 calls2 where p: "poll_claim cl key n got (Sleep cl w1) = (r2, w2, calls2)"
        by (cases "poll_claim cl key n got (Sleep cl w1)")
      from Suc.IH[OF p] Suc.prems g Inr False p show ?thesis by auto
    qed
  qed
qed

lemma resolve_address_calls:
  "resolve_address cl networkRef c w = (r, w', calls) \<Longrightarrow>
     calls = [GetAddress \<lparr>key_Namespace = claim_Namespace c, key_Name = claim_AddressRef_Name c\<rparr>]"
  by (auto simp: resolve_address_def Let_def split: prod.splits sum.splits)


lemma capi_found_unbound:
  "Get_claim cl (claim_key ns mn nr) w = (Inr c, w1) \<Longrightarrow> claim_AddressRef_Name c = [] \<Longrightarrow>
   applyCapiIPAddress cl ns nr mn w = (Inl ClaimNotReady, w1, [GetClaim (claim_key ns mn nr)])"
  by (simp add: applyCapiIPAddress_def Let_def)

lemma capi_found_bound:
  "Get_claim cl (claim_key ns mn nr) w = (Inr c, w1) \<Longrightarrow> claim_AddressRef_Name c \<noteq> [] \<Longrightarrow>
   resolve_address cl nr c w1 = (r, w2, calls) \<Longrightarrow>
   applyCapiIPAddress cl ns nr mn w = (r, w2, GetClaim (claim_key ns mn nr) # calls)"
  by (simp add: applyCapiIPAddress_def Let_def)

lemma capi_lookup_error:
  "Get_claim cl (claim_key ns mn nr) w = (Inl e, w1) \<Longrightarrow> \<not> IsNotFound e \<Longrightarrow>
   applyCapiIPAddress cl ns nr mn w = (Inl (ClientError e), w1, [GetClaim (claim_key ns mn nr)])"
  by (simp add: applyCapiIPAddress_def Let_def)

lemma capi_no_ref:
  "Get_claim cl (claim_key ns mn nr) w = (Inl e, w1) \<Longrightarrow> IsNotFound e \<Longrightarrow>
   IPAMRef nr = None \<Longrightarrow>
   applyCapiIPAddress cl ns nr mn w = (Inl IpamRefNotSet, w1, [GetClaim (claim_key ns mn nr)])"
  by (simp add: applyCapiIPAddress_def Let_def)

lemma capi_create_error:
  "Get_claim cl (claim_key ns mn nr) w = (Inl e, w1) \<Longrightarrow> IsNotFound e \<Longrightarrow>
   IPAMRef nr = Some p \<Longrightarrow>
   Create_claim cl (new_claim (claim_key ns mn nr) p) w1 = (Inl e', w2) \<Longrightarrow>
   applyCapiIPAddress cl ns nr mn w =
     (Inl (ErrorCreatingIP e'), w2,
      [GetClaim (claim_key ns mn nr), CreateClaim (new_claim (claim_key ns mn nr) p)])"
  by (simp add: applyCapiIPAddress_def Let_def)

lemma capi_poll_error:
  "Get_claim cl (claim_key ns mn nr) w = (Inl e, w1) \<Longrightarrow> IsNotFound e \<Longrightarrow>
   IPAMRef nr = Some p \<Longrightarrow>
   Create_claim cl (new_claim (claim_key ns mn nr) p) w1 = (Inr created, w2) \<Longrightarrow>
   poll_claim cl (claim_key ns mn nr) poll_attempts created w2 = (Inl e', w3, calls) \<Longrightarrow>
   applyCapiIPAddress cl ns nr mn w =
     (Inl e', w3,
      GetClaim (claim_key ns mn nr) # CreateClaim (new_claim (claim_key ns mn nr) p) # calls)"
  by (simp add: applyCapiIPAddress_def Let_def)

lemma capi_poll_bound:
  "Get_claim cl (claim_key ns mn nr) w = (Inl e, w1) \<Longrightarrow> IsNotFound e \<Longrightarrow>
   IPAMRef nr = Some p \<Longrightarrow>
   Create_claim cl (new_claim (claim_key ns mn nr) p) w1 = (Inr created, w2) \<Longrightarrow>
   poll_claim cl (claim_key ns mn nr) poll_attempts created w2 = (Inr bound, w3, calls) \<Longrightarrow>
   resolve_address cl nr bound w3 = (r, w4, calls') \<Longrightarrow>
   applyCapiIPAddress cl ns nr mn w =
     (r, w4,
      GetClaim (claim_key ns mn nr) # CreateClaim (new_claim (claim_key ns mn nr) p) #
      calls @ calls')"
  by (simp add: applyCapiIPAddress_def Let_def)



text \<open>Every run of the allocator for one reference has one of seven shapes.\<close>

lemma applyCapiIPAddress_cases:
  assumes run: "applyCapiIPAddress cl ns nr mn w = (r, w', calls)"
  obtains
    (unbound) c where "Get_claim cl (claim_key ns mn nr) w = (Inr c, w')"
      "claim_AddressRef_Name c = []" "r = Inl ClaimNotReady"
      "calls = [GetClaim (claim_key ns mn nr)]"
  | (bound) c w1 where "Get_claim cl (claim_key ns mn nr) w = (Inr c, w1)"
      "claim_AddressRef_Name c \<noteq> []"
      "calls = [GetClaim (claim_key ns mn nr),
                GetAddress \<lparr>key_Namespace = claim_Namespace c,
                            key_Name = claim_AddressRef_Name c\<rparr>]"
  | (lookup_error) e where "Get_claim cl (claim_key ns mn nr) w = (Inl e, w')"
      "\<not> IsNotFound e" "r = Inl (ClientError e)" "calls = [GetClaim (claim_key ns mn nr)]"
  | (no_ref) e where "Get_claim cl (claim_key ns mn nr) w = (Inl e, w')" "IsNotFound e"
      "IPAMRef nr = None" "r = Inl IpamRefNotSet" "calls = [GetClaim (claim_key ns mn nr)]"
  | (create_error) e w1 p e' where "Get_claim cl (claim_key ns mn nr) w = (Inl e, w1)"
      "IsNotFound e" "IPAMRef nr = Some p"
      "Create_claim cl (new_claim (claim_key ns mn nr) p) w1 = (Inl e', w')"
      "r = Inl (ErrorCreatingIP e')"
      "calls = [GetClaim (claim_key ns mn nr), CreateClaim (new_claim (claim_key ns mn nr) p)]"
  | (poll_error) e w1 p created w2 e' polls where
      "Get_claim cl (claim_key ns mn nr) w = (Inl e, w1)"
      "IsNotFound e" "IPAMRef nr = Some p"
      "Create_claim cl (new_claim (claim_key ns mn nr) p) w1 = (Inr created, w2)"
      "poll_claim cl (claim_key ns mn nr) poll_attempts created w2 = (Inl e', w', polls)"
      "r = Inl e'"
      "calls = GetClaim (claim_key ns mn nr) # CreateClaim (new_claim (claim_key ns mn nr) p) #
               polls"
  | (poll_bound) e w1 p created w2 b w3 polls where
      "Get_claim cl (claim_key ns mn nr) w = (Inl e, w1)"
      "IsNotFound e" "IPAMRef nr = Some p"
      "Create_claim cl (new_claim (claim_key ns mn nr) p) w1 = (Inr created, w2)"
      "poll_claim cl (claim_key ns mn nr) poll_attempts created w2 = (Inr b, w3, polls)"
      "calls = GetClaim (claim_key ns mn nr) # CreateClaim (new_claim (claim_key ns mn nr) p) #
               polls @ [GetAddress \<lparr>key_Namespace = claim_Namespace b,
                                     key_Name = claim_AddressRef_Name b\<rparr>]"
proof -
  obtain a w1 where g: "Get_claim cl (claim_key ns mn nr) w = (a, w1)"
    by (cases "Get_claim cl (claim_key ns mn nr) w")
  show thesis
  proof (cases a)
    case (Inr c)
    show thesis
    proof (cases "claim_AddressRef_Name c = []")
      case True
      from capi_found_unbound[OF g[unfolded Inr] True] run unbound g Inr True
      show thesis by simp
    next
      case False
      obtain r2 w2 calls2 where rs: "resolve_address cl nr c w1 = (r2, w2, calls2)"
        by (cases "resolve_address cl nr c w1")
      from capi_found_bound[OF g[unfolded Inr] False rs] run
      have "calls = GetClaim (claim_key ns mn nr) # calls2" by simp
      with resolve_address_calls[OF rs] bound g Inr False show thesis by simp
    qed
  next
    case (Inl e)
    show thesis
    proof (cases "IsNotFound e")
      case False
      from capi_lookup_error[OF g[unfolded Inl] False] run lookup_error g Inl False
      show thesis by simp
    next
      case True
      show thesis
      proof (cases "IPAMRef nr")
        case None
        from capi_no_ref[OF g[unfolded Inl] True None] run no_ref g Inl True None
        show thesis by simp
      next
        case (Some p)
        obtain a2 w2 where c: "Create_claim cl (new_claim (claim_key ns mn nr) p) w1 = (a2, w2)"
          by (cases "Create_claim cl (new_claim (claim_key ns mn nr) p) w1")
        show thesis
        proof (cases a2)
          case (Inl e')
          from capi_create_error[OF g[unfolded \<open>a = Inl e\<close>] True Some c[unfolded Inl]] run
            create_error[OF g[unfolded \<open>a = Inl e\<close>] True Some] c Inl
          show thesis by simp
        next
          case (Inr created)
          obtain a3 w3 polls where
            p: "poll_claim cl (claim_key ns mn nr) poll_attempts created w2 = (a3, w3, polls)"
            by (cases "poll_claim cl (claim_key ns mn nr) poll_attempts created w2")
          show thesis
          proof (cases a3)
            case (Inl e')
            from capi_poll_error[OF g[unfolded \<open>a = Inl e\<close>] True Some c[unfolded Inr]
                p[unfolded Inl]] run
              poll_error[OF g[unfolded \<open>a = Inl e\<close>] True Some c[unfolded Inr]] p Inl
            show thesis by simp
          next
            case (Inr b)
            obtain r4 w4 calls4 where rs: "resolve_address cl nr b w3 = (r4, w4, calls4)"
              by (cases "resolve_address cl nr b w3")
            from capi_poll_bound[OF g[unfolded \<open>a = Inl e\<close>] True Some
                c[unfolded \<open>a2 = Inr created\<close>] p[unfolded Inr] rs] run
            have "calls = GetClaim (claim_key ns mn nr) #
                CreateClaim (new_claim (claim_key ns mn nr) p) # polls @ calls4" by simp
            with resolve_address_calls[OF rs]
              poll_bound[OF g[unfolded \<open>a = Inl e\<close>] True Some
                c[unfolded \<open>a2 = Inr created\<close>] p[unfolded Inr]]
            show thesis by simp
          qed
        qed
      qed
    qed
  qed
qed


lemma applyCapiIPAddress_no_patch:
  assumes "applyCapiIPAddress cl ns nr mn w = (r, w', calls)"
  shows "\<forall>c \<in> set calls. \<not> is_patch c"
  using assms
proof (cases rule: applyCapiIPAddress_cases)
  case (poll_error e w1 p created w2 e' polls)
  from poll_claim_calls[OF poll_error(5)] poll_error(7) show ?thesis by auto
next
  case (poll_bound e w1 p created w2 b w3 polls)
  from poll_claim_calls[OF poll_bound(5)] poll_bound(6) show ?thesis by auto
qed simp_all

lemma applyIPAddresses_loop_no_patch:
  "applyIPAddresses_loop cl ns machineName acc refs w = (r, w', calls) \<Longrightarrow>
     \<forall>c \<in> set calls. \<not> is_patch c"
proof (induction refs arbitrary: acc w r w' calls)
  case Nil
  then show ?case by simp
next
  case (Cons networkRef rest)
  show ?case
  proof (cases "case IPAMRef networkRef of None \<Rightarrow> False | Some r \<Rightarrow> ref_APIGroup r = capi_Group")
    case False
    with Cons.prems have "applyIPAddresses_loop cl ns machineName acc rest w = (r, w', calls)"
      by simp
    then show ?thesis by (rule Cons.IH)
  next
    case True
    obtain r1 w1 calls1 where a: "applyCapiIPAddress cl ns networkRef machineName w = (r1, w1, calls1)"
      by (cases "applyCapiIPAddress cl ns networkRef machineName w")
    have n1: "\<forall>c \<in> set calls1. \<not> is_patch c" using a by (rule applyCapiIPAddress_no_patch)
    show ?thesis
    proof (cases r1)
      case (Inl e)
      with Cons.prems True a have "calls = calls1" by simp
      with n1 show ?thesis by simp
    next
      case (Inr md)
      obtain r2 w2 calls2 where l: "applyIPAddresses_loop cl ns machineName (acc @ [md]) rest w1 = (r2, w2, calls2)"
        by (cases "applyIPAddresses_loop cl ns machineName (acc @ [md]) rest w1")
      from Cons.prems True a Inr l have "calls = calls1 @ calls2" by simp
      with n1 Cons.IH[OF l] show ?thesis by auto
    qed
  qed
qed

lemma filter_no_patch: "\<forall>c \<in> set calls. \<not> is_patch c \<Longrightarrow> filter is_patch calls = []"
  by (induction calls) auto


lemma applyServerClaim_cases:
  assumes run: "applyServerClaim d cl m providerSpec ignitionSecret w = (r, w', calls)"
  obtains
    (claim_failed) e where
      "Patch cl (ServerClaimObject (make_serverClaim d m providerSpec ignitionSecret))
         Apply (fieldOwner d) True w = (Some e, w')"
      "r = Inl (StatusError Internal (''error applying metal machine: '' @ api_error_text e))"
      "calls = [PatchObject (ServerClaimObject (make_serverClaim d m providerSpec ignitionSecret))
                  Apply (fieldOwner d) True]"
  | (secret_failed) e where
      "r = Inl (StatusError Internal (''error applying ignition secret: '' @ api_error_text e))"
      "calls = [PatchObject (ServerClaimObject (make_serverClaim d m providerSpec ignitionSecret))
                  Apply (fieldOwner d) True,
                PatchObject (SecretObject ignitionSecret) Apply (fieldOwner d) True]"
  | (applied)
      "r = Inr (make_serverClaim d m providerSpec ignitionSecret)"
      "calls = [PatchObject (ServerClaimObject (make_serverClaim d m providerSpec ignitionSecret))
                  Apply (fieldOwner d) True,
                PatchObject (SecretObject ignitionSecret) Apply (fieldOwner d) True]"
proof -
  let ?sc = "make_serverClaim d m providerSpec ignitionSecret"
  obtain a1 w1 where p1: "Patch cl (ServerClaimObject ?sc) Apply (fieldOwner d) True w = (a1, w1)"
    by (cases "Patch cl (ServerClaimObject ?sc) Apply (fieldOwner d) True w")
  show thesis
  proof (cases a1)
    case (Some e)
    with p1 run have "r = Inl (StatusError Internal (''error applying metal machine: '' @ api_error_text e))"
      "w' = w1" "calls = [PatchObject (ServerClaimObject ?sc) Apply (fieldOwner d) True]"
      by (simp_all add: applyServerClaim_def Let_def)
    with p1 Some claim_failed show thesis by simp
  next
    case None
    obtain a2 w2 where
      p2: "Patch cl (SecretObject ignitionSecret) Apply (fieldOwner d) True w1 = (a2, w2)"
      by (cases "Patch cl (SecretObject ignitionSecret) Apply (fieldOwner d) True w1")
    show thesis
    proof (cases a2)
      case (Some e)
      with p1 p2 None run have
        "r = Inl (StatusError Internal (''error applying ignition secret: '' @ api_error_text e))"
        "calls = [PatchObject (ServerClaimObject ?sc) Apply (fieldOwner d) True,
                  PatchObject (SecretObject ignitionSecret) Apply (fieldOwner d) True]"
        by (simp_all add: applyServerClaim_def Let_def)
      with secret_failed show thesis by simp
    next
      case a2None: None
      with p1 p2 None run have
        "r = Inr ?sc"
        "calls = [PatchObject (ServerClaimObject ?sc) Apply (fieldOwner d) True,
                  PatchObject (SecretObject ignitionSecret) Apply (fieldOwner d) True]"
        by (simp_all add: applyServerClaim_def Let_def)
      with applied show thesis by simp
    qed
  qed
qed

lemma CreateMachine_empty:
  "isEmptyCreateRequest req \<Longrightarrow>
   CreateMachine d cl req w = (Inl (StatusError InvalidArgument ''received empty request''), w, [])"
  by (simp add: CreateMachine_def)

lemma CreateMachine_other_provider:
  "\<not> isEmptyCreateRequest req \<Longrightarrow>
   Provider (the (MachineClass (the req))) \<noteq> ProviderName d \<Longrightarrow>
   snd (CreateMachine d cl req w) = (w, []) \<and> (\<exists>e. fst (CreateMachine d cl req w) = Inl e)"
  by (simp add: CreateMachine_def Let_def)

lemma CreateMachine_invalid:
  "\<not> isEmptyCreateRequest req \<Longrightarrow>
   Provider (the (MachineClass (the req))) = ProviderName d \<Longrightarrow>
   validateProviderSpecAndSecret d (MachineClass (the req)) (the (Secret (the req))) = Inl e \<Longrightarrow>
   CreateMachine d cl req w = (Inl e, w, [])"
  by (simp add: CreateMachine_def Let_def)

lemma CreateMachine_allocation_failed:
  "\<not> isEmptyCreateRequest req \<Longrightarrow>
   Provider (the (MachineClass (the req))) = ProviderName d \<Longrightarrow>
   validateProviderSpecAndSecret d (MachineClass (the req)) (the (Secret (the req))) =
     Inr providerSpec \<Longrightarrow>
   applyIPAddresses cl (metalNamespace d) (machine_Name (the (Machine (the req))))
     (IPAMConfig providerSpec) w = (Inl e, w1, calls1) \<Longrightarrow>
   CreateMachine d cl req w = (Inl e, w1, calls1)"
  by (simp add: CreateMachine_def Let_def)

lemma CreateMachine_ignition_failed:
  "\<not> isEmptyCreateRequest req \<Longrightarrow>
   Provider (the (MachineClass (the req))) = ProviderName d \<Longrightarrow>
   validateProviderSpecAndSecret d (MachineClass (the req)) (the (Secret (the req))) =
     Inr providerSpec \<Longrightarrow>
   applyIPAddresses cl (metalNamespace d) (machine_Name (the (Machine (the req))))
     (IPAMConfig providerSpec) w = (Inr addressMetaData, w1, calls1) \<Longrightarrow>
   applyIgnition d (the (Machine (the req))) (the (Secret (the req))) providerSpec
     addressMetaData = Inl e \<Longrightarrow>
   CreateMachine d cl req w = (Inl e, w1, calls1)"
  by (simp add: CreateMachine_def Let_def)

lemma CreateMachine_apply_failed:
  "\<not> isEmptyCreateRequest req \<Longrightarrow>
   Provider (the (MachineClass (the req))) = ProviderName d \<Longrightarrow>
   validateProviderSpecAndSecret d (MachineClass (the req)) (the (Secret (the req))) =
     Inr providerSpec \<Longrightarrow>
   applyIPAddresses cl (metalNamespace d) (machine_Name (the (Machine (the req))))
     (IPAMConfig providerSpec) w = (Inr addressMetaData, w1, calls1) \<Longrightarrow>
   applyIgnition d (the (Machine (the req))) (the (Secret (the req))) providerSpec
     addressMetaData = Inr ignitionSecret \<Longrightarrow>
   applyServerClaim d cl (the (Machine (the req))) providerSpec ignitionSecret w1 =
     (Inl e, w2, calls2) \<Longrightarrow>
   CreateMachine d cl req w = (Inl e, w2, calls1 @ calls2)"
  by (simp add: CreateMachine_def Let_def)

lemma CreateMachine_applied:
  "\<not> isEmptyCreateRequest req \<Longrightarrow>
   Provider (the (MachineClass (the req))) = ProviderName d \<Longrightarrow>
   validateProviderSpecAndSecret d (MachineClass (the req)) (the (Secret (the req))) =
     Inr providerSpec \<Longrightarrow>
   applyIPAddresses cl (metalNamespace d) (machine_Name (the (Machine (the req))))
     (IPAMConfig providerSpec) w = (Inr addressMetaData, w1, calls1) \<Longrightarrow>
   applyIgnition d (the (Machine (the req))) (the (Secret (the req))) providerSpec
     addressMetaData = Inr ignitionSecret \<Longrightarrow>
   applyServerClaim d cl (the (Machine (the req))) providerSpec ignitionSecret w1 =
     (Inr serverClaim, w2, calls2) \<Longrightarrow>
   CreateMachine d cl req w =
     (Inr \<lparr>ProviderID = getProviderIDForServerClaim d serverClaim,
           NodeName = sc_Name serverClaim\<rparr>, w2, calls1 @ calls2)"
  by (simp add: CreateMachine_def Let_def)

text \<open>Every run of \<open>CreateMachine\<close> stops at one of five places.\<close>

lemma CreateMachine_cases:
  assumes run: "CreateMachine d cl req w = (r, w', calls)"
  obtains
    (rejected) e where "r = Inl e" "w' = w" "calls = []"
  | (allocation_failed) providerSpec e where
      "validateProviderSpecAndSecret d (MachineClass (the req)) (the (Secret (the req))) =
         Inr providerSpec"
      "applyIPAddresses cl (metalNamespace d) (machine_Name (the (Machine (the req))))
         (IPAMConfig providerSpec) w = (Inl e, w', calls)"
      "r = Inl e"
  | (ignition_failed) providerSpec addressMetaData e where
      "validateProviderSpecAndSecret d (MachineClass (the req)) (the (Secret (the req))) =
         Inr providerSpec"
      "applyIPAddresses cl (metalNamespace d) (machine_Name (the (Machine (the req))))
         (IPAMConfig providerSpec) w = (Inr addressMetaData, w', calls)"
      "applyIgnition d (the (Machine (the req))) (the (Secret (the req))) providerSpec
         addressMetaData = Inl e"
      "r = Inl e"
  | (apply_failed) providerSpec addressMetaData w1 calls1 ignitionSecret e calls2 where
      "validateProviderSpecAndSecret d (MachineClass (the req)) (the (Secret (the req))) =
         Inr providerSpec"
      "applyIPAddresses cl (metalNamespace d) (machine_Name (the (Machine (the req))))
         (IPAMConfig providerSpec) w = (Inr addressMetaData, w1, calls1)"
      "applyIgnition d (the (Machine (the req))) (the (Secret (the req))) providerSpec
         addressMetaData = Inr ignitionSecret"
      "applyServerClaim d cl (the (Machine (the req))) providerSpec ignitionSecret w1 =
         (Inl e, w', calls2)"
      "r = Inl e" "calls = calls1 @ calls2"
  | (applied) providerSpec addressMetaData w1 calls1 ignitionSecret serverClaim calls2 where
      "validateProviderSpecAndSecret d (MachineClass (the req)) (the (Secret (the req))) =
         Inr providerSpec"
      "applyIPAddresses cl (metalNamespace d) (machine_Name (the (Machine (the req))))
         (IPAMConfig providerSpec) w = (Inr addressMetaData, w1, calls1)"
      "applyIgnition d (the (Machine (the req))) (the (Secret (the req))) providerSpec
         addressMetaData = Inr ignitionSecret"
      "applyServerClaim d cl (the (Machine (the req))) providerSpec ignitionSecret w1 =
         (Inr serverClaim, w', calls2)"
      "r = Inr \<lparr>ProviderID = getProviderIDForServerClaim d serverClaim,
                 NodeName = sc_Name serverClaim\<rparr>"
      "calls = calls1 @ calls2"
proof (cases "isEmptyCreateRequest req")
  case True
  from CreateMachine_empty[OF True, of d cl w] run rejected show thesis by simp
next
  case ne: False
  show thesis
  proof (cases "Provider (the (MachineClass (the req))) = ProviderName d")
    case False
    from CreateMachine_other_provider[OF ne False, of cl w] run rejected
    show thesis by auto
  next
    case pr: True
    show thesis
    proof (cases "validateProviderSpecAndSecret d (MachineClass (the req))
                    (the (Secret (the req)))")
      case (Inl e)
      from CreateMachine_invalid[OF ne pr Inl, of cl w] run rejected show thesis by simp
    next
      case v: (Inr providerSpec)
      obtain r1 w1 calls1 where
        a: "applyIPAddresses cl (metalNamespace d) (machine_Name (the (Machine (the req))))
              (IPAMConfig providerSpec) w = (r1, w1, calls1)"
        by (cases "applyIPAddresses cl (metalNamespace d)
                     (machine_Name (the (Machine (the req)))) (IPAMConfig providerSpec) w")
      show thesis
      proof (cases r1)
        case (Inl e)
        from CreateMachine_allocation_failed[OF ne pr v a[unfolded Inl]] run
        have "r = Inl e" "w' = w1" "calls = calls1" by simp_all
        with allocation_failed[OF v] a Inl show thesis by simp
      next
        case amd: (Inr addressMetaData)
        show thesis
        proof (cases "applyIgnition d (the (Machine (the req))) (the (Secret (the req)))
                        providerSpec addressMetaData")
          case (Inl e)
          from CreateMachine_ignition_failed[OF ne pr v a[unfolded amd] Inl] run
          have "r = Inl e" "w' = w1" "calls = calls1" by simp_all
          with ignition_failed[OF v _ Inl] a amd show thesis by simp
        next
          case ign: (Inr ignitionSecret)
          obtain r2 w2 calls2 where
            s: "applyServerClaim d cl (the (Machine (the req))) providerSpec ignitionSecret w1 =
                  (r2, w2, calls2)"
            by (cases "applyServerClaim d cl (the (Machine (the req))) providerSpec
                         ignitionSecret w1")
          show thesis
          proof (cases r2)
            case (Inl e)
            from CreateMachine_apply_failed[OF ne pr v a[unfolded amd] ign s[unfolded Inl]] run
            have "r = Inl e" "w' = w2" "calls = calls1 @ calls2" by simp_all
            with apply_failed[OF v a[unfolded amd] ign] s Inl show thesis by simp
          next
            case (Inr serverClaim)
            from CreateMachine_applied[OF ne pr v a[unfolded amd] ign s[unfolded Inr]] run
            have "r = Inr \<lparr>ProviderID = getProviderIDForServerClaim d serverClaim,
                           NodeName = sc_Name serverClaim\<rparr>"
              "w' = w2" "calls = calls1 @ calls2" by simp_all
            with applied[OF v a[unfolded amd] ign] s Inr show thesis by simp
          qed
        qed
      qed
    qed
  qed
qed

lemma applyIPAddresses_no_patch:
  "applyIPAddresses cl ns machineName refs w = (r, w', calls) \<Longrightarrow> filter is_patch calls = []"
  unfolding applyIPAddresses_def
  by (rule filter_no_patch, rule applyIPAddresses_loop_no_patch)

lemma applyCapiIPAddress_calls:
  assumes "applyCapiIPAddress cl ns nr mn w = (r, w', calls)"
  shows "\<exists>rest. calls = GetClaim (claim_key ns mn nr) # rest \<and>
     (\<forall>c \<in> set rest. c = GetClaim (claim_key ns mn nr) \<or>
        (\<exists>p. IPAMRef nr = Some p \<and> c = CreateClaim (new_claim (claim_key ns mn nr) p)) \<or>
        (\<exists>k. c = GetAddress k))"
  using assms
proof (cases rule: applyCapiIPAddress_cases)
  case (poll_error e w1 p created w2 e' polls)
  from poll_claim_calls[OF poll_error(5)] poll_error(3,7) show ?thesis by auto
next
  case (poll_bound e w1 p created w2 b w3 polls)
  from poll_claim_calls[OF poll_bound(5)] poll_bound(3,6) show ?thesis by auto
qed simp_all

lemma applyIPAddresses_loop_skip:
  "\<not> (case IPAMRef networkRef of None \<Rightarrow> False | Some r \<Rightarrow> ref_APIGroup r = capi_Group) \<Longrightarrow>
   applyIPAddresses_loop cl ns machineName acc (before @ networkRef # after) w =
   applyIPAddresses_loop cl ns machineName acc (before @ after) w"
proof (induction before arbitrary: acc w)
  case Nil
  then show ?case by simp
next
  case (Cons a before)
  show ?case
  proof (cases "case IPAMRef a of None \<Rightarrow> False | Some r \<Rightarrow> ref_APIGroup r = capi_Group")
    case False
    with Cons show ?thesis by simp
  next
    case True
    obtain r1 w1 calls1 where a: "applyCapiIPAddress cl ns a machineName w = (r1, w1, calls1)"
      by (cases "applyCapiIPAddress cl ns a machineName w")
    show ?thesis
    proof (cases r1)
      case (Inl e)
      with True a show ?thesis by simp
    next
      case (Inr md)
      with True a Cons.IH[OF Cons.prems, of "acc @ [md]" w1] show ?thesis by simp
    qed
  qed
qed

lemma applyCapiIPAddress_reads_creates:
  assumes "applyCapiIPAddress cl ns nr mn w = (r, w', calls)"
  shows "\<forall>c \<in> set calls. is_read c \<or> is_create c"
proof -
  from applyCapiIPAddress_calls[OF assms] obtain rest where
    c: "calls = GetClaim (claim_key ns mn nr) # rest" and
    rest: "\<forall>c \<in> set rest. c = GetClaim (claim_key ns mn nr) \<or>
        (\<exists>p. IPAMRef nr = Some p \<and> c = CreateClaim (new_claim (claim_key ns mn nr) p)) \<or>
        (\<exists>k. c = GetAddress k)"
    by blast
  from rest have "\<forall>c \<in> set rest. is_read c \<or> is_create c" by auto
  with c show ?thesis by simp
qed

lemma applyIPAddresses_loop_reads_creates:
  "applyIPAddresses_loop cl ns machineName acc refs w = (r, w', calls) \<Longrightarrow>
     \<forall>c \<in> set calls. is_read c \<or> is_create c"
proof (induction refs arbitrary: acc w r w' calls)
  case Nil
  then show ?case by simp
next
  case (Cons networkRef rest)
  show ?case
  proof (cases "case IPAMRef networkRef of None \<Rightarrow> False | Some r \<Rightarrow> ref_APIGroup r = capi_Group")
    case False
    with Cons.prems have "applyIPAddresses_loop cl ns machineName acc rest w = (r, w', calls)"
      by simp
    then show ?thesis by (rule Cons.IH)
  next
    case True
    obtain r1 w1 calls1 where
      a: "applyCapiIPAddress cl ns networkRef machineName w = (r1, w1, calls1)"
      by (cases "applyCapiIPAddress cl ns networkRef machineName w")
    have n1: "\<forall>c \<in> set calls1. is_read c \<or> is_create c"
      using a by (rule applyCapiIPAddress_reads_creates)
    show ?thesis
    proof (cases r1)
      case (Inl e)
      with Cons.prems True a have "calls = calls1" by simp
      with n1 show ?thesis by simp
    next
      case (Inr md)
      obtain r2 w2 calls2 where
        l: "applyIPAddresses_loop cl ns machineName (acc @ [md]) rest w1 = (r2, w2, calls2)"
        by (cases "applyIPAddresses_loop cl ns machineName (acc @ [md]) rest w1")
      from Cons.prems True a Inr l have "calls = calls1 @ calls2" by simp
      with n1 Cons.IH[OF l] show ?thesis by auto
    qed
  qed
qed

lemma applyIPAddresses_loop_append:
  "applyIPAddresses_loop cl ns machineName acc before w = (Inr acc', w0, calls0) \<Longrightarrow>
   applyIPAddresses_loop cl ns machineName acc (before @ rest) w =
     (case applyIPAddresses_loop cl ns machineName acc' rest w0 of
        (r, w', calls) \<Rightarrow> (r, w', calls0 @ calls))"
proof (induction before arbitrary: acc w calls0)
  case Nil
  then show ?case by (simp split: prod.splits)
next
  case (Cons a before)
  show ?case
  proof (cases "case IPAMRef a of None \<Rightarrow> False | Some r \<Rightarrow> ref_APIGroup r = capi_Group")
    case False
    with Cons.prems have "applyIPAddresses_loop cl ns machineName acc before w =
        (Inr acc', w0, calls0)"
      by simp
    from Cons.IH[OF this] False show ?thesis by simp
  next
    case True
    obtain r1 w1 calls1 where a: "applyCapiIPAddress cl ns a machineName w = (r1, w1, calls1)"
      by (cases "applyCapiIPAddress cl ns a machineName w")
    show ?thesis
    proof (cases r1)
      case (Inl e)
      with True a Cons.prems show ?thesis by simp
    next
      case (Inr md)
      obtain r2 w2 calls2 where
        l: "applyIPAddresses_loop cl ns machineName (acc @ [md]) before w1 = (r2, w2, calls2)"
        by (cases "applyIPAddresses_loop cl ns machineName (acc @ [md]) before w1")
      from Cons.prems True a Inr l have r2: "r2 = Inr acc'" "w2 = w0" "calls0 = calls1 @ calls2"
        by simp_all
      from Cons.IH[OF l[unfolded r2(1,2)]] True a Inr r2(3) show ?thesis
        by (simp split: prod.splits)
    qed
  qed
qed

lemma poll_claim_never_bound:
  "claim_AddressRef_Name c = [] \<Longrightarrow>
   \<forall>a \<in> set (poll_answers cl key n w). unbound_answer a \<Longrightarrow>
   fst (poll_claim cl key n c w) = Inl DeadlineExceeded"
proof (induction n arbitrary: c w)
  case 0
  then show ?case by simp
next
  case (Suc n)
  obtain a w1 where g: "Get_claim cl key w = (a, w1)"
    by (cases "Get_claim cl key w")
  from Suc.prems(2) g have ua: "unbound_answer a"
    and rest: "\<forall>a \<in> set (poll_answers cl key n (Sleep cl w1)). unbound_answer a"
    by simp_all
  show ?case
  proof (cases a)
    case (Inl e)
    with ua have nf: "IsNotFound e" by simp
    from Suc.IH[OF Suc.prems(1) rest] g Inl nf Suc.prems(1) show ?thesis
      by (auto split: prod.splits)
  next
    case (Inr got)
    with ua have u: "claim_AddressRef_Name got = []" by simp
    from Suc.IH[OF u rest] g Inr u show ?thesis
      by (auto split: prod.splits)
  qed
qed

section \<open>Lookups in a merged tree\<close>

lemma map_of_set_key:
  "map_of (set_key k v m) k' = (if k' = k then Some v else map_of m k')"
  by (induction m) auto

lemma map_of_Merge:
  "distinct (map fst src) \<Longrightarrow>
   map_of (Merge dst src) k =
     (case map_of src k of
        None \<Rightarrow> map_of dst k
      | Some v \<Rightarrow>
          Some (case (map_of dst k, v) of
                  (Some (Obj d), Obj s) \<Rightarrow> Obj (Merge d s)
                | _ \<Rightarrow> v))"
proof (induction src arbitrary: dst)
  case Nil
  then show ?case by simp
next
  case (Cons kv src)
  obtain k0 v0 where kv: "kv = (k0, v0)" by (cases kv)
  define dst' where "dst' =
      (case (map_of dst k0, v0) of
         (Some (Obj d), Obj s) \<Rightarrow> set_key k0 (Obj (Merge d s)) dst
       | _ \<Rightarrow> set_key k0 v0 dst)"
  define merged where "merged =
      (case (map_of dst k0, v0) of
         (Some (Obj d), Obj s) \<Rightarrow> Obj (Merge d s) | _ \<Rightarrow> v0)"
  from Cons.prems kv have d: "distinct (map fst src)" and fresh: "map_of src k0 = None"
    by (simp_all add: map_of_eq_None_iff)
  have step: "map_of dst' k' = (if k' = k0 then Some merged else map_of dst k')" for k'
    unfolding dst'_def merged_def
    by (simp add: map_of_set_key split: option.splits any.splits)
  have unfold: "Merge dst (kv # src) = Merge dst' src"
    by (simp add: kv dst'_def)
  have ih: "map_of (Merge dst' src) k =
      (case map_of src k of
        None \<Rightarrow> map_of dst' k
      | Some v \<Rightarrow>
          Some (case (map_of dst' k, v) of
                  (Some (Obj d), Obj s) \<Rightarrow> Obj (Merge d s)
                | _ \<Rightarrow> v))"
    by (rule Cons.IH[OF d])
  show ?case
  proof (cases "k = k0")
    case True
    from ih True fresh step[of k0] have "map_of (Merge dst' src) k = Some merged"
      by simp
    moreover from True kv have "map_of (kv # src) k = Some v0" by simp
    ultimately show ?thesis
      unfolding unfold using True by (simp add: merged_def)
  next
    case False
    from step[of k] False have same: "map_of dst' k = map_of dst k" by simp
    from False kv have eq: "map_of (kv # src) k = map_of src k" by simp
    show ?thesis
      unfolding unfold ih eq same by (rule refl)
  qed
qed

lemma wf_any_lookup:
  "wf_any (Obj m) \<Longrightarrow> map_of m k = Some v \<Longrightarrow> wf_any v"
  by (auto dest: map_of_SomeD)

lemma at_path_Merge_leaf:
  "wf_any (Obj fragment) \<Longrightarrow> path \<noteq> [] \<Longrightarrow> at_path fragment path = Some v \<Longrightarrow>
   is_leaf v \<Longrightarrow> at_path (Merge m fragment) path = Some v"
proof (induction path arbitrary: fragment m)
  case Nil
  then show ?case by simp
next
  case (Cons k ks)
  from Cons.prems(1) have dist: "distinct (map fst fragment)" by simp
  show ?case
  proof (cases ks)
    case Nil
    with Cons.prems have look: "map_of fragment k = Some v" by simp
    from Cons.prems(4) have "(case (map_of m k, v) of
        (Some (Obj d), Obj s) \<Rightarrow> Obj (Merge d s) | _ \<Rightarrow> v) = v"
      by (cases v) (simp_all split: option.splits any.splits)
    with map_of_Merge[OF dist, of m k] look Nil show ?thesis by simp
  next
    case (Cons k' ks')
    with Cons.prems(3) obtain sub where
      look: "map_of fragment k = Some (Obj sub)" and deeper: "at_path sub ks = Some v"
      by (auto split: option.splits any.splits)
    from wf_any_lookup[OF Cons.prems(1) look] have wf: "wf_any (Obj sub)" .
    from Cons have ne: "ks \<noteq> []" by simp
    show ?thesis
    proof (cases "\<exists>d. map_of m k = Some (Obj d)")
      case True
      then obtain d where md: "map_of m k = Some (Obj d)" by blast
      from map_of_Merge[OF dist, of m k] look md
      have "map_of (Merge m fragment) k = Some (Obj (Merge d sub))" by simp
      with Cons.IH[OF wf ne deeper Cons.prems(4), of d] Cons show ?thesis by simp
    next
      case False
      then have "(case (map_of m k, Obj sub) of
          (Some (Obj d), Obj s) \<Rightarrow> Obj (Merge d s) | _ \<Rightarrow> Obj sub) = Obj sub"
        by (auto split: option.splits any.splits)
      with map_of_Merge[OF dist, of m k] look
      have "map_of (Merge m fragment) k = Some (Obj sub)" by simp
      with deeper Cons show ?thesis by simp
    qed
  qed
qed

lemma merge_addressMetaData_snoc:
  "merge_addressMetaData base (fragments @ [fragment]) =
     Merge (merge_addressMetaData base fragments) fragment"
  by (simp add: merge_addressMetaData_def)

section \<open>Claim names\<close>

text \<open>
  C8. Every lookup and every create that the allocator issues for a network reference
  carries one claim name. When machine name, hyphen and metadata key together are longer
  than the maximum name length, that name is the first 253 bytes of the concatenation, so a
  second reference whose concatenation is too long as well and agrees on the first 253
  bytes is looked up and created under the same name; a concatenation of at most the
  maximum length is the claim name as it is.
\<close>

theorem claim_name_truncation:
  assumes run: "applyCapiIPAddress cl ns networkRef machineName w = (r, w', calls)"
      and run2: "applyCapiIPAddress cl2 ns networkRef2 machineName2 w2 = (r2, w2', calls2)"
  shows "\<exists>n rest. calls = GetClaim \<lparr>key_Namespace = ns, key_Name = n\<rparr> # rest \<and>
     (\<forall>k. GetClaim k \<in> set calls \<longrightarrow> key_Name k = n) \<and>
     (\<forall>c. CreateClaim c \<in> set calls \<longrightarrow> claim_Name c = n) \<and>
     (length (machineName @ ''-'' @ MetadataKey networkRef) > DNS1123SubdomainMaxLength \<longrightarrow>
        n = take DNS1123SubdomainMaxLength (machineName @ ''-'' @ MetadataKey networkRef) \<and>
        length n = 253 \<and>
        (length (machineName2 @ ''-'' @ MetadataKey networkRef2) > DNS1123SubdomainMaxLength \<and>
         take DNS1123SubdomainMaxLength (machineName2 @ ''-'' @ MetadataKey networkRef2) =
         take DNS1123SubdomainMaxLength (machineName @ ''-'' @ MetadataKey networkRef) \<longrightarrow>
           hd calls2 = hd calls \<and>
           (\<forall>k. GetClaim k \<in> set calls2 \<longrightarrow> key_Name k = n) \<and>
           (\<forall>c. CreateClaim c \<in> set calls2 \<longrightarrow> claim_Name c = n))) \<and>
     (length (machineName @ ''-'' @ MetadataKey networkRef) \<le> DNS1123SubdomainMaxLength \<longrightarrow>
        n = machineName @ ''-'' @ MetadataKey networkRef)"
proof -
  let ?key = "claim_key ns machineName networkRef"
  let ?key2 = "claim_key ns machineName2 networkRef2"
  let ?n = "ipAddrClaimName machineName (MetadataKey networkRef)"
  from applyCapiIPAddress_calls[OF run] obtain rest where
    c: "calls = GetClaim ?key # rest" and
    rest: "\<forall>c \<in> set rest. c = GetClaim ?key \<or>
        (\<exists>p. IPAMRef networkRef = Some p \<and> c = CreateClaim (new_claim ?key p)) \<or>
        (\<exists>k. c = GetAddress k)"
    by blast
  from applyCapiIPAddress_calls[OF run2] obtain rest2 where
    c2: "calls2 = GetClaim ?key2 # rest2" and
    rest2: "\<forall>c \<in> set rest2. c = GetClaim ?key2 \<or>
        (\<exists>p. IPAMRef networkRef2 = Some p \<and> c = CreateClaim (new_claim ?key2 p)) \<or>
        (\<exists>k. c = GetAddress k)"
    by blast
  have key: "?key = \<lparr>key_Namespace = ns, key_Name = ?n\<rparr>"
    by (simp add: claim_key_def)
  have gets: "\<forall>k. GetClaim k \<in> set calls \<longrightarrow> key_Name k = ?n"
    using c rest by (auto simp: claim_key_def)
  have creates: "\<forall>c. CreateClaim c \<in> set calls \<longrightarrow> claim_Name c = ?n"
    using c rest by (auto simp: claim_key_def new_claim_def)
  have gets2: "\<forall>k. GetClaim k \<in> set calls2 \<longrightarrow>
      key_Name k = ipAddrClaimName machineName2 (MetadataKey networkRef2)"
    using c2 rest2 by (auto simp: claim_key_def)
  have creates2: "\<forall>c. CreateClaim c \<in> set calls2 \<longrightarrow>
      claim_Name c = ipAddrClaimName machineName2 (MetadataKey networkRef2)"
    using c2 rest2 by (auto simp: claim_key_def new_claim_def)
  have long: "length (machineName @ ''-'' @ MetadataKey networkRef) > DNS1123SubdomainMaxLength \<Longrightarrow>
      ?n = take DNS1123SubdomainMaxLength (machineName @ ''-'' @ MetadataKey networkRef) \<and>
      length ?n = 253"
    by (simp add: ipAddrClaimName_def Let_def DNS1123SubdomainMaxLength_def)
  have short: "length (machineName @ ''-'' @ MetadataKey networkRef) \<le> DNS1123SubdomainMaxLength \<Longrightarrow>
      ?n = machineName @ ''-'' @ MetadataKey networkRef"
    by (simp add: ipAddrClaimName_def Let_def)
  have same: "length (machineName @ ''-'' @ MetadataKey networkRef) > DNS1123SubdomainMaxLength \<Longrightarrow>
      length (machineName2 @ ''-'' @ MetadataKey networkRef2) > DNS1123SubdomainMaxLength \<Longrightarrow>
      take DNS1123SubdomainMaxLength (machineName2 @ ''-'' @ MetadataKey networkRef2) =
      take DNS1123SubdomainMaxLength (machineName @ ''-'' @ MetadataKey networkRef) \<Longrightarrow>
      ipAddrClaimName machineName2 (MetadataKey networkRef2) = ?n"
    by (simp add: ipAddrClaimName_def Let_def)
  have heads: "ipAddrClaimName machineName2 (MetadataKey networkRef2) = ?n \<Longrightarrow>
      hd calls2 = hd calls"
    using c c2 by (simp add: claim_key_def)
  from c key have first: "calls = GetClaim \<lparr>key_Namespace = ns, key_Name = ?n\<rparr> # rest"
    by simp
  show ?thesis
    apply (rule exI[of _ ?n])
    apply (rule exI[of _ rest])
    using first gets creates gets2 creates2 long short same heads
    by metis
qed

theorem claim_name_truncation_witness:
  "hd (snd (snd (applyCapiIPAddress sim_client ''metal'' eth0_ref (replicate 250 (CHR ''a''))
          (sim_start None)))) =
     GetClaim \<lparr>key_Namespace = ''metal'', key_Name = replicate 250 (CHR ''a'') @ ''-et''\<rparr> \<and>
   hd (snd (snd (applyCapiIPAddress sim_client ''metal'' (eth0_ref\<lparr>MetadataKey := ''eth1''\<rparr>)
          (replicate 250 (CHR ''a'')) (sim_start None)))) =
     GetClaim \<lparr>key_Namespace = ''metal'', key_Name = replicate 250 (CHR ''a'') @ ''-et''\<rparr> \<and>
   hd (snd (snd (applyCapiIPAddress sim_client ''metal'' eth0_ref ''m1'' (sim_start None)))) =
     GetClaim \<lparr>key_Namespace = ''metal'', key_Name = ''m1-eth0''\<rparr>"
proof -
  let ?m = "replicate 250 (CHR ''a'')"
  let ?eth1 = "eth0_ref\<lparr>MetadataKey := ''eth1''\<rparr>"
  obtain r w' calls where
    run: "applyCapiIPAddress sim_client ''metal'' eth0_ref ?m (sim_start None) = (r, w', calls)"
    by (cases "applyCapiIPAddress sim_client ''metal'' eth0_ref ?m (sim_start None)")
  obtain r2 w2' calls2 where
    run2: "applyCapiIPAddress sim_client ''metal'' ?eth1 ?m (sim_start None) = (r2, w2', calls2)"
    by (cases "applyCapiIPAddress sim_client ''metal'' ?eth1 ?m (sim_start None)")
  obtain r3 w3' calls3 where
    run3: "applyCapiIPAddress sim_client ''metal'' eth0_ref ''m1'' (sim_start None) =
             (r3, w3', calls3)"
    by (cases "applyCapiIPAddress sim_client ''metal'' eth0_ref ''m1'' (sim_start None)")
  have long: "length (?m @ ''-'' @ MetadataKey eth0_ref) > DNS1123SubdomainMaxLength"
    by (simp add: eth0_ref_def DNS1123SubdomainMaxLength_def)
  have long2: "length (?m @ ''-'' @ MetadataKey ?eth1) > DNS1123SubdomainMaxLength"
    by (simp add: DNS1123SubdomainMaxLength_def)
  have cut: "take DNS1123SubdomainMaxLength (?m @ ''-'' @ MetadataKey eth0_ref) = ?m @ ''-et''"
    by (simp add: eth0_ref_def DNS1123SubdomainMaxLength_def)
  have cut2: "take DNS1123SubdomainMaxLength (?m @ ''-'' @ MetadataKey ?eth1) = ?m @ ''-et''"
    by (simp add: DNS1123SubdomainMaxLength_def)
  have short: "length (''m1'' @ ''-'' @ MetadataKey eth0_ref) \<le> DNS1123SubdomainMaxLength"
    by (simp add: eth0_ref_def DNS1123SubdomainMaxLength_def)
  have name3: "''m1'' @ ''-'' @ MetadataKey eth0_ref = ''m1-eth0''"
    by (simp add: eth0_ref_def)
  have agree: "take DNS1123SubdomainMaxLength (?m @ ''-'' @ MetadataKey ?eth1) =
               take DNS1123SubdomainMaxLength (?m @ ''-'' @ MetadataKey eth0_ref)"
    by (simp only: cut cut2)
  from claim_name_truncation[OF run run2] obtain n rest where
    h: "calls = GetClaim \<lparr>key_Namespace = ''metal'', key_Name = n\<rparr> # rest" and
    l: "length (?m @ ''-'' @ MetadataKey eth0_ref) > DNS1123SubdomainMaxLength \<longrightarrow>
        n = take DNS1123SubdomainMaxLength (?m @ ''-'' @ MetadataKey eth0_ref) \<and>
        length n = 253 \<and>
        (length (?m @ ''-'' @ MetadataKey ?eth1) > DNS1123SubdomainMaxLength \<and>
         take DNS1123SubdomainMaxLength (?m @ ''-'' @ MetadataKey ?eth1) =
         take DNS1123SubdomainMaxLength (?m @ ''-'' @ MetadataKey eth0_ref) \<longrightarrow>
           hd calls2 = hd calls \<and>
           (\<forall>k. GetClaim k \<in> set calls2 \<longrightarrow> key_Name k = n) \<and>
           (\<forall>c. CreateClaim c \<in> set calls2 \<longrightarrow> claim_Name c = n))"
    by blast
  from l long long2 agree have n: "n = take DNS1123SubdomainMaxLength (?m @ ''-'' @ MetadataKey eth0_ref)"
    and b: "hd calls2 = hd calls"
    by blast+
  from h n cut have a: "hd calls = GetClaim \<lparr>key_Namespace = ''metal'', key_Name = ?m @ ''-et''\<rparr>"
    by simp
  from claim_name_truncation[OF run3 run3] obtain n3 rest3 where
    h3: "calls3 = GetClaim \<lparr>key_Namespace = ''metal'', key_Name = n3\<rparr> # rest3" and
    s3: "length (''m1'' @ ''-'' @ MetadataKey eth0_ref) \<le> DNS1123SubdomainMaxLength \<longrightarrow>
        n3 = ''m1'' @ ''-'' @ MetadataKey eth0_ref"
    by blast
  from s3 short name3 have "n3 = ''m1-eth0''" by simp
  with h3 have c: "hd calls3 = GetClaim \<lparr>key_Namespace = ''metal'', key_Name = ''m1-eth0''\<rparr>"
    by simp
  from a b c run run2 run3 show ?thesis by simp
qed

section \<open>The order of the two applies\<close>

text \<open>
  C1. For every successful call of \<open>CreateMachine\<close> the patches it has issued
  are exactly two, both server-side applies with forced ownership: first the server
  reservation (the \<open>ServerClaim\<close> named after the machine), then the ignition secret that
  the reservation references by name. The write of the reservation precedes the write of
  the artifact.
\<close>

theorem reservation_applied_before_artifact:
  assumes run: "CreateMachine d cl req w = (Inr resp, w', calls)"
  shows "\<exists>serverClaim ignitionSecret.
           filter is_patch calls =
             [PatchObject (ServerClaimObject serverClaim) Apply (fieldOwner d) True,
              PatchObject (SecretObject ignitionSecret) Apply (fieldOwner d) True] \<and>
           sc_IgnitionSecretRef serverClaim = secret_Name ignitionSecret \<and>
           sc_Name serverClaim = NodeName resp"
  using run
proof (cases rule: CreateMachine_cases)
  case (applied providerSpec addressMetaData w1 calls1 ignitionSecret serverClaim calls2)
  let ?sc = "make_serverClaim d (the (Machine (the req))) providerSpec ignitionSecret"
  from applied(4) have sc: "serverClaim = ?sc" and
    c2: "calls2 = [PatchObject (ServerClaimObject ?sc) Apply (fieldOwner d) True,
                   PatchObject (SecretObject ignitionSecret) Apply (fieldOwner d) True]"
    by (cases rule: applyServerClaim_cases; simp)+
  from applyIPAddresses_no_patch[OF applied(2)] have "filter is_patch calls1 = []" .
  with applied(6) c2 have
    "filter is_patch calls =
       [PatchObject (ServerClaimObject ?sc) Apply (fieldOwner d) True,
        PatchObject (SecretObject ignitionSecret) Apply (fieldOwner d) True]"
    by simp
  moreover have "sc_IgnitionSecretRef ?sc = secret_Name ignitionSecret"
    by (simp add: make_serverClaim_def)
  moreover from applied(5) sc have "sc_Name ?sc = NodeName resp"
    by simp
  ultimately show ?thesis by blast
qed simp_all

theorem reservation_applied_before_artifact_witness:
  "length (filter is_patch (snd (snd
     (CreateMachine (m1_deps [eth0_ref]) sim_client m1_request
        (sim_with_claim ''m1-eth0'' None))))) = 2 \<and>
   list_all (is_forced_apply ''mcm.ironcore.dev/field-owner'') (filter is_patch (snd (snd
     (CreateMachine (m1_deps [eth0_ref]) sim_client m1_request
        (sim_with_claim ''m1-eth0'' None)))))"
proof -
  obtain w' calls where
    run: "CreateMachine (m1_deps [eth0_ref]) sim_client m1_request
            (sim_with_claim ''m1-eth0'' None) =
          (Inr \<lparr>ProviderID = ''ironcore-metal://metal/m1'', NodeName = ''m1''\<rparr>, w', calls)"
  proof -
    have "fst (CreateMachine (m1_deps [eth0_ref]) sim_client m1_request
            (sim_with_claim ''m1-eth0'' None)) =
          Inr \<lparr>ProviderID = ''ironcore-metal://metal/m1'', NodeName = ''m1''\<rparr>"
      by code_simp
    then show ?thesis
      using that
      by (cases "CreateMachine (m1_deps [eth0_ref]) sim_client m1_request
            (sim_with_claim ''m1-eth0'' None)") simp
  qed
  have owner: "fieldOwner (m1_deps [eth0_ref]) = ''mcm.ironcore.dev/field-owner''"
    by (simp add: m1_deps_def)
  from reservation_applied_before_artifact[OF run] obtain serverClaim ignitionSecret where
    p: "filter is_patch calls =
             [PatchObject (ServerClaimObject serverClaim) Apply
                (fieldOwner (m1_deps [eth0_ref])) True,
              PatchObject (SecretObject ignitionSecret) Apply
                (fieldOwner (m1_deps [eth0_ref])) True]"
    by blast
  from p owner have "length (filter is_patch calls) = 2 \<and>
      list_all (is_forced_apply ''mcm.ironcore.dev/field-owner'') (filter is_patch calls)"
    by simp
  with run show ?thesis by simp
qed

text \<open>
  Machine \<open>m1\<close> with the network reference \<open>eth0\<close>, on a control plane whose address
  allocator binds the new claim during the third wait: \<open>CreateMachine\<close> succeeds, and the
  control plane has received the \<open>ServerClaim\<close> first and the \<open>Secret\<close> second.
\<close>

theorem reservation_is_applied_first:
  "fst (CreateMachine (m1_deps [eth0_ref]) sim_client m1_request (sim_start (Some 2))) =
     Inr \<lparr>ProviderID = ''ironcore-metal://metal/m1'', NodeName = ''m1''\<rparr> \<and>
   patched_kinds (snd (snd (CreateMachine (m1_deps [eth0_ref]) sim_client m1_request
     (sim_start (Some 2))))) = [''ServerClaim'', ''Secret''] \<and>
   sim_applied (fst (snd (CreateMachine (m1_deps [eth0_ref]) sim_client m1_request
     (sim_start (Some 2))))) =
     [ServerClaimObject
        \<lparr>sc_APIVersion = ''metal.ironcore.dev/v1alpha1'', sc_Kind = ''ServerClaim'',
         sc_Name = ''m1'', sc_Namespace = ''metal'', sc_Labels = [], sc_Power = ''On'',
         sc_MatchLabels = [], sc_IgnitionSecretRef = ''m1-ignition'',
         sc_Image = ''gardenlinux''\<rparr>,
      SecretObject
        \<lparr>secret_APIVersion = ''v1'', secret_Kind = ''Secret'', secret_Name = ''m1-ignition'',
         secret_Namespace = ''metal'',
         secret_Data = [(''ignition'', ''ignition-content'')]\<rparr>]"
  by code_simp

section \<open>A claim that exists and is not bound\<close>




section \<open>A reference without pool selector\<close>

text \<open>
  C3. A network reference whose pool selector is absent is skipped by
  \<open>applyIPAddresses\<close>, wherever it stands in the list: the allocation runs as if the
  reference were not there. The error of the missing pool selector is what
  \<open>applyCapiIPAddress\<close> returns, after its lookup, when it is run on a reference whose
  claim does not exist and whose pool selector is absent.
\<close>

theorem absent_pool_selector:
  "(IPAMRef networkRef = None \<longrightarrow>
      applyIPAddresses cl ns machineName (before @ networkRef # after) w =
      applyIPAddresses cl ns machineName (before @ after) w) \<and>
   (IPAMRef networkRef = None \<and>
    Get_claim cl (claim_key ns machineName networkRef) w = (Inl NotFound, w1) \<longrightarrow>
      applyCapiIPAddress cl ns networkRef machineName w =
        (Inl IpamRefNotSet, w1, [GetClaim (claim_key ns machineName networkRef)]))"
proof (intro conjI impI)
  assume "IPAMRef networkRef = None"
  then have "\<not> (case IPAMRef networkRef of None \<Rightarrow> False
                 | Some r \<Rightarrow> ref_APIGroup r = capi_Group)"
    by simp
  then show "applyIPAddresses cl ns machineName (before @ networkRef # after) w =
      applyIPAddresses cl ns machineName (before @ after) w"
    unfolding applyIPAddresses_def by (rule applyIPAddresses_loop_skip)
next
  assume a: "IPAMRef networkRef = None \<and>
    Get_claim cl (claim_key ns machineName networkRef) w = (Inl NotFound, w1)"
  have "IsNotFound NotFound" by (simp add: IsNotFound_def)
  with a show "applyCapiIPAddress cl ns networkRef machineName w =
        (Inl IpamRefNotSet, w1, [GetClaim (claim_key ns machineName networkRef)])"
    by (simp add: capi_no_ref)
qed

theorem absent_pool_selector_witness:
  "applyIPAddresses sim_client ''metal'' ''m1'' ([eth0_ref] @ bare_ref # [])
     (sim_with_claim ''m1-eth0'' None) =
   applyIPAddresses sim_client ''metal'' ''m1'' ([eth0_ref] @ [])
     (sim_with_claim ''m1-eth0'' None) \<and>
   applyCapiIPAddress sim_client ''metal'' bare_ref ''m1'' (sim_start None) =
     (Inl IpamRefNotSet, sim_start None, [GetClaim eth0_key])"
proof -
  have none: "IPAMRef bare_ref = None"
    by code_simp
  have key: "claim_key ''metal'' ''m1'' bare_ref = eth0_key"
    by code_simp
  have get: "Get_claim sim_client (claim_key ''metal'' ''m1'' bare_ref) (sim_start None) =
               (Inl NotFound, sim_start None)"
    by code_simp
  from absent_pool_selector[of bare_ref sim_client "''metal''" "''m1''" "[eth0_ref]" "[]"
      "sim_with_claim ''m1-eth0'' None" "sim_start None"] none
  have a: "applyIPAddresses sim_client ''metal'' ''m1'' ([eth0_ref] @ bare_ref # [])
     (sim_with_claim ''m1-eth0'' None) =
   applyIPAddresses sim_client ''metal'' ''m1'' ([eth0_ref] @ [])
     (sim_with_claim ''m1-eth0'' None)"
    by blast
  from absent_pool_selector[of bare_ref sim_client "''metal''" "''m1''" "[]" "[]"
      "sim_start None" "sim_start None"] none get
  have b: "applyCapiIPAddress sim_client ''metal'' bare_ref ''m1'' (sim_start None) =
     (Inl IpamRefNotSet, sim_start None, [GetClaim (claim_key ''metal'' ''m1'' bare_ref)])"
    by blast
  from a b key show ?thesis by simp
qed

text \<open>
  Machine \<open>m1\<close> with one network reference that has no pool selector, on a control plane
  without any claim: the allocation succeeds with no metadata and no call, and
  \<open>CreateMachine\<close> succeeds.
\<close>

theorem absent_pool_selector_is_skipped:
  "map_of (sim_claims (sim_start None)) eth0_key = None \<and>
   applyIPAddresses sim_client ''metal'' ''m1'' [bare_ref] (sim_start None) =
     (Inr [], sim_start None, []) \<and>
   fst (CreateMachine (m1_deps [bare_ref]) sim_client m1_request (sim_start None)) =
     Inr \<lparr>ProviderID = ''ironcore-metal://metal/m1'', NodeName = ''m1''\<rparr>"
  by code_simp

section \<open>The writes of one call\<close>

text \<open>
  C4. Every call that \<open>CreateMachine\<close> issues is a lookup, the create of an
  address claim, or a server-side apply with forced ownership under the driver's field
  owner; the applies are those of the reservation and of the ignition secret. The claim is
  written with a plain create, which the allocator issues only after its lookup of that
  claim answered not-found; when the create fails, with already-exists or any other error,
  the allocation fails with that error wrapped.
\<close>

theorem writes_of_CreateMachine:
  assumes run: "CreateMachine d cl req w = (r, w', calls)"
      and alloc: "applyCapiIPAddress cl ns networkRef machineName w0 = (r0, w0', calls0)"
  shows "(\<forall>c \<in> set calls. is_read c \<or> is_create c \<or> is_forced_apply (fieldOwner d) c) \<and>
         (\<forall>c. CreateClaim c \<in> set calls0 \<longrightarrow>
            (\<exists>p w1. IPAMRef networkRef = Some p \<and>
               c = new_claim (claim_key ns machineName networkRef) p \<and>
               Get_claim cl (claim_key ns machineName networkRef) w0 = (Inl NotFound, w1) \<and>
               (\<forall>e. fst (Create_claim cl c w1) = Inl e \<longrightarrow> r0 = Inl (ErrorCreatingIP e))))"
proof -
  have alloc_calls: "\<forall>c \<in> set calls1. is_read c \<or> is_create c"
    if "applyIPAddresses cl ns' m' refs w = (r1, w1, calls1)" for ns' m' refs r1 w1 calls1
    using that unfolding applyIPAddresses_def by (rule applyIPAddresses_loop_reads_creates)
  have apply_calls: "\<forall>c \<in> set calls2. is_forced_apply (fieldOwner d) c"
    if "applyServerClaim d cl m' ps se w1 = (r2, w2, calls2)" for m' ps se w1 r2 w2 calls2
    using that by (cases rule: applyServerClaim_cases) simp_all
  from run have first: "\<forall>c \<in> set calls. is_read c \<or> is_create c \<or>
      is_forced_apply (fieldOwner d) c"
  proof (cases rule: CreateMachine_cases)
    case (rejected e)
    then show ?thesis by simp
  next
    case (allocation_failed providerSpec e)
    from alloc_calls[OF allocation_failed(2)] show ?thesis by blast
  next
    case (ignition_failed providerSpec addressMetaData e)
    from alloc_calls[OF ignition_failed(2)] show ?thesis by blast
  next
    case (apply_failed providerSpec addressMetaData w1 calls1 ignitionSecret e calls2)
    from alloc_calls[OF apply_failed(2)] apply_calls[OF apply_failed(4)] apply_failed(6)
    show ?thesis by auto
  next
    case (applied providerSpec addressMetaData w1 calls1 ignitionSecret serverClaim calls2)
    from alloc_calls[OF applied(2)] apply_calls[OF applied(4)] applied(6)
    show ?thesis by auto
  qed
  have second: "\<exists>p w1. IPAMRef networkRef = Some p \<and>
               c = new_claim (claim_key ns machineName networkRef) p \<and>
               Get_claim cl (claim_key ns machineName networkRef) w0 = (Inl NotFound, w1) \<and>
               (\<forall>e. fst (Create_claim cl c w1) = Inl e \<longrightarrow> r0 = Inl (ErrorCreatingIP e))"
    if c: "CreateClaim c \<in> set calls0" for c
    using alloc
  proof (cases rule: applyCapiIPAddress_cases)
    case (create_error e w1 p e')
    with c show ?thesis by (auto simp: IsNotFound_def)
  next
    case (poll_error e w1 p created w2 e' polls)
    from poll_claim_calls[OF poll_error(5)] c poll_error(7)
    have "c = new_claim (claim_key ns machineName networkRef) p" by auto
    with poll_error show ?thesis by (auto simp: IsNotFound_def)
  next
    case (poll_bound e w1 p created w2 b w3 polls)
    from poll_claim_calls[OF poll_bound(5)] c poll_bound(6)
    have "c = new_claim (claim_key ns machineName networkRef) p" by auto
    with poll_bound show ?thesis by (auto simp: IsNotFound_def)
  qed (use c in simp_all)
  from first second show ?thesis by blast
qed

theorem writes_of_CreateMachine_witness:
  "list_all (\<lambda>c. is_read c \<or> is_create c \<or> is_forced_apply ''mcm.ironcore.dev/field-owner'' c)
     (snd (snd (CreateMachine (m1_deps [eth0_ref]) sim_client m1_request (sim_start (Some 2))))) \<and>
   fst (applyCapiIPAddress racing_client ''metal'' eth0_ref ''m1'' (sim_start (Some 2))) =
     Inl (ErrorCreatingIP AlreadyExists)"
proof -
  obtain r w' calls where
    run: "CreateMachine (m1_deps [eth0_ref]) sim_client m1_request (sim_start (Some 2)) =
            (r, w', calls)"
    by (cases "CreateMachine (m1_deps [eth0_ref]) sim_client m1_request (sim_start (Some 2))")
  obtain r0 w0' calls0 where
    alloc: "applyCapiIPAddress racing_client ''metal'' eth0_ref ''m1'' (sim_start (Some 2)) =
            (r0, w0', calls0)"
    by (cases "applyCapiIPAddress racing_client ''metal'' eth0_ref ''m1'' (sim_start (Some 2))")
  obtain rr wr' callsr where
    run_r: "CreateMachine (m1_deps [eth0_ref]) racing_client m1_request (sim_start (Some 2)) =
            (rr, wr', callsr)"
    by (cases "CreateMachine (m1_deps [eth0_ref]) racing_client m1_request (sim_start (Some 2))")
  obtain r1 w1' calls1 where
    alloc1: "applyCapiIPAddress sim_client ''metal'' eth0_ref ''m1'' (sim_start (Some 2)) =
            (r1, w1', calls1)"
    by (cases "applyCapiIPAddress sim_client ''metal'' eth0_ref ''m1'' (sim_start (Some 2))")
  have owner: "fieldOwner (m1_deps [eth0_ref]) = ''mcm.ironcore.dev/field-owner''"
    by (simp add: m1_deps_def)
  have created: "CreateClaim (eth0_claim []) \<in> set (snd (snd
      (applyCapiIPAddress racing_client ''metal'' eth0_ref ''m1'' (sim_start (Some 2)))))"
    by code_simp
  have key: "claim_key ''metal'' ''m1'' eth0_ref = eth0_key"
    by code_simp
  have get: "Get_claim racing_client eth0_key (sim_start (Some 2)) =
      (Inl NotFound, sim_with_claim [] (Some 2))"
    by code_simp
  have exists: "fst (Create_claim racing_client (eth0_claim []) (sim_with_claim [] (Some 2))) =
      Inl AlreadyExists"
    by code_simp
  from writes_of_CreateMachine[OF run alloc1] owner
  have a: "\<forall>c \<in> set calls. is_read c \<or> is_create c \<or>
      is_forced_apply ''mcm.ironcore.dev/field-owner'' c"
    by simp
  from writes_of_CreateMachine[OF run_r alloc] created alloc key
  obtain p w1 where
    g: "Get_claim racing_client eth0_key (sim_start (Some 2)) = (Inl NotFound, w1)" and
    e: "\<forall>e. fst (Create_claim racing_client (eth0_claim []) w1) = Inl e \<longrightarrow>
          r0 = Inl (ErrorCreatingIP e)"
    by (metis snd_conv)
  from g get have "w1 = sim_with_claim [] (Some 2)" by simp
  with e exists have "r0 = Inl (ErrorCreatingIP AlreadyExists)" by blast
  with a run alloc show ?thesis by (simp add: list_all_iff)
qed

text \<open>
  Machine \<open>m1\<close> with the network reference \<open>eth0\<close>, on a control plane where the claim
  does not exist: one of the writes of \<open>CreateMachine\<close> is a plain create of the claim. When
  a second identical request creates the claim between the lookup and the create of this
  one, \<open>CreateMachine\<close> fails with the already-exists error of its create.
\<close>

theorem claim_is_created_plainly:
  "filter is_create (snd (snd (CreateMachine (m1_deps [eth0_ref]) sim_client m1_request
     (sim_start (Some 2))))) = [CreateClaim (eth0_claim [])] \<and>
   \<not> is_forced_apply (fieldOwner (m1_deps [eth0_ref])) (CreateClaim (eth0_claim [])) \<and>
   fst (CreateMachine (m1_deps [eth0_ref]) racing_client m1_request (sim_start (Some 2))) =
     Inl (ErrorCreatingIP AlreadyExists)"
  by code_simp

section \<open>How often a claim is created\<close>

text \<open>
  C5. \<open>applyIPAddresses\<close> passes over every network reference whose pool
  selector is absent or names another API group than the cluster-API one: no claim is
  created for it. For a reference with a pool selector of that group, the calls of
  \<open>applyIPAddresses\<close> on the reference alone are those of \<open>applyCapiIPAddress\<close>; when the
  lookup of the claim answers not-found, exactly one claim-create write is among them, and
  when the claim is found bound, they are the lookup of the claim and the lookup of the
  address: reads only.
\<close>

theorem claim_create_writes:
  assumes run: "applyCapiIPAddress cl ns networkRef machineName w = (r, w', calls)"
  shows "((\<forall>p. IPAMRef networkRef = Some p \<longrightarrow> ref_APIGroup p \<noteq> capi_Group) \<longrightarrow>
            applyIPAddresses cl ns machineName (before @ networkRef # after) w0 =
            applyIPAddresses cl ns machineName (before @ after) w0) \<and>
         (IPAMRef networkRef = Some p \<and> ref_APIGroup p = capi_Group \<longrightarrow>
            snd (snd (applyIPAddresses cl ns machineName [networkRef] w)) = calls) \<and>
         (IPAMRef networkRef = Some p \<and>
          Get_claim cl (claim_key ns machineName networkRef) w = (Inl NotFound, w1) \<longrightarrow>
            filter is_create calls =
              [CreateClaim (new_claim (claim_key ns machineName networkRef) p)]) \<and>
         (Get_claim cl (claim_key ns machineName networkRef) w = (Inr found, w1) \<and>
          claim_AddressRef_Name found \<noteq> [] \<longrightarrow>
            calls = [GetClaim (claim_key ns machineName networkRef),
                     GetAddress \<lparr>key_Namespace = claim_Namespace found,
                                 key_Name = claim_AddressRef_Name found\<rparr>] \<and>
            filter is_create calls = [] \<and> (\<forall>c \<in> set calls. is_read c))"
proof -
  have skipped: "applyIPAddresses cl ns machineName (before @ networkRef # after) w0 =
      applyIPAddresses cl ns machineName (before @ after) w0"
    if "\<forall>p. IPAMRef networkRef = Some p \<longrightarrow> ref_APIGroup p \<noteq> capi_Group"
  proof -
    from that have "\<not> (case IPAMRef networkRef of None \<Rightarrow> False
                 | Some r \<Rightarrow> ref_APIGroup r = capi_Group)"
      by (cases "IPAMRef networkRef") simp_all
    then show ?thesis
      unfolding applyIPAddresses_def by (rule applyIPAddresses_loop_skip)
  qed
  have alone: "snd (snd (applyIPAddresses cl ns machineName [networkRef] w)) = calls"
    if "IPAMRef networkRef = Some p \<and> ref_APIGroup p = capi_Group"
    using that run by (cases r) (simp_all add: applyIPAddresses_def)
  have created: "filter is_create calls =
      [CreateClaim (new_claim (claim_key ns machineName networkRef) p)]"
    if a: "IPAMRef networkRef = Some p \<and>
          Get_claim cl (claim_key ns machineName networkRef) w = (Inl NotFound, w1)"
    using run
  proof (cases rule: applyCapiIPAddress_cases)
    case (create_error e w1' p' e')
    with a show ?thesis by simp
  next
    case (poll_error e w1' p' created w2 e' polls)
    from poll_claim_calls[OF poll_error(5)] have "filter is_create polls = []"
      by (induction polls) auto
    with poll_error a show ?thesis by simp
  next
    case (poll_bound e w1' p' created w2 b w3 polls)
    from poll_claim_calls[OF poll_bound(5)] have "filter is_create polls = []"
      by (induction polls) auto
    with poll_bound a show ?thesis by simp
  qed (use a in \<open>simp_all add: IsNotFound_def\<close>)
  have reads: "calls = [GetClaim (claim_key ns machineName networkRef),
                     GetAddress \<lparr>key_Namespace = claim_Namespace found,
                                 key_Name = claim_AddressRef_Name found\<rparr>] \<and>
            filter is_create calls = [] \<and> (\<forall>c \<in> set calls. is_read c)"
    if a: "Get_claim cl (claim_key ns machineName networkRef) w = (Inr found, w1) \<and>
          claim_AddressRef_Name found \<noteq> []"
  proof -
    from run have "calls = [GetClaim (claim_key ns machineName networkRef),
                     GetAddress \<lparr>key_Namespace = claim_Namespace found,
                                 key_Name = claim_AddressRef_Name found\<rparr>]"
      by (cases rule: applyCapiIPAddress_cases) (use a in simp_all)
    then show ?thesis by simp
  qed
  from skipped alone created reads show ?thesis by blast
qed

theorem claim_create_writes_witness:
  "applyIPAddresses sim_client ''metal'' ''m1'' ([] @ other_group_ref # [eth0_ref])
     (sim_start (Some 0)) =
   applyIPAddresses sim_client ''metal'' ''m1'' ([] @ [eth0_ref]) (sim_start (Some 0)) \<and>
   filter is_create
     (snd (snd (applyIPAddresses sim_client ''metal'' ''m1'' [eth0_ref] (sim_start (Some 0))))) =
     [CreateClaim (eth0_claim [])] \<and>
   snd (snd (applyIPAddresses sim_client ''metal'' ''m1'' [eth0_ref]
     (sim_with_claim ''m1-eth0'' None))) = [GetClaim eth0_key, GetAddress eth0_key]"
proof -
  obtain r w' calls where
    run: "applyCapiIPAddress sim_client ''metal'' eth0_ref ''m1'' (sim_start (Some 0)) =
            (r, w', calls)"
    by (cases "applyCapiIPAddress sim_client ''metal'' eth0_ref ''m1'' (sim_start (Some 0))")
  obtain r2 w2' calls2 where
    run2: "applyCapiIPAddress sim_client ''metal'' eth0_ref ''m1''
             (sim_with_claim ''m1-eth0'' None) = (r2, w2', calls2)"
    by (cases "applyCapiIPAddress sim_client ''metal'' eth0_ref ''m1''
                 (sim_with_claim ''m1-eth0'' None)")
  obtain r3 w3' calls3 where
    run3: "applyCapiIPAddress sim_client ''metal'' other_group_ref ''m1'' (sim_start (Some 0)) =
            (r3, w3', calls3)"
    by (cases "applyCapiIPAddress sim_client ''metal'' other_group_ref ''m1''
                 (sim_start (Some 0))")
  let ?p = "\<lparr>ref_Name = ''pool-a'', ref_APIGroup = capi_Group,
             ref_Kind = ''GlobalInClusterIPPool''\<rparr>"
  have other: "\<forall>p. IPAMRef other_group_ref = Some p \<longrightarrow> ref_APIGroup p \<noteq> capi_Group"
    by (simp add: other_group_ref_def capi_Group_def)
  have sel: "IPAMRef eth0_ref = Some ?p" "ref_APIGroup ?p = capi_Group"
    by (simp_all add: eth0_ref_def)
  have key: "claim_key ''metal'' ''m1'' eth0_ref = eth0_key"
    by code_simp
  have new: "new_claim eth0_key ?p = eth0_claim []"
    by code_simp
  have absent: "Get_claim sim_client (claim_key ''metal'' ''m1'' eth0_ref) (sim_start (Some 0)) =
                  (Inl NotFound, sim_start (Some 0))"
    by code_simp
  have bound: "Get_claim sim_client (claim_key ''metal'' ''m1'' eth0_ref)
                 (sim_with_claim ''m1-eth0'' None) =
                  (Inr (eth0_claim ''m1-eth0''), sim_with_claim ''m1-eth0'' None)"
    by code_simp
  have is_bound: "claim_AddressRef_Name (eth0_claim ''m1-eth0'') \<noteq> []"
    by code_simp
  have addr: "\<lparr>key_Namespace = claim_Namespace (eth0_claim ''m1-eth0''),
               key_Name = claim_AddressRef_Name (eth0_claim ''m1-eth0'')\<rparr> = eth0_key"
    by code_simp
  from claim_create_writes[OF run3, of "[]" "[eth0_ref]" "sim_start (Some 0)"] other
  have a: "applyIPAddresses sim_client ''metal'' ''m1'' ([] @ other_group_ref # [eth0_ref])
     (sim_start (Some 0)) =
   applyIPAddresses sim_client ''metal'' ''m1'' ([] @ [eth0_ref]) (sim_start (Some 0))"
    by blast
  from claim_create_writes[OF run, of "[]" "[]" "sim_start (Some 0)" ?p "sim_start (Some 0)"]
    sel absent
  have b: "snd (snd (applyIPAddresses sim_client ''metal'' ''m1'' [eth0_ref]
             (sim_start (Some 0)))) = calls"
    and c: "filter is_create calls =
              [CreateClaim (new_claim (claim_key ''metal'' ''m1'' eth0_ref) ?p)]"
    by blast+
  from claim_create_writes[OF run2, of "[]" "[]" "sim_start (Some 0)" ?p
      "sim_with_claim ''m1-eth0'' None" "eth0_claim ''m1-eth0''"] sel bound is_bound
  have d: "snd (snd (applyIPAddresses sim_client ''metal'' ''m1'' [eth0_ref]
             (sim_with_claim ''m1-eth0'' None))) = calls2"
    and e: "calls2 = [GetClaim (claim_key ''metal'' ''m1'' eth0_ref),
                     GetAddress \<lparr>key_Namespace = claim_Namespace (eth0_claim ''m1-eth0''),
                                 key_Name = claim_AddressRef_Name (eth0_claim ''m1-eth0'')\<rparr>]"
    by blast+
  from a b c d e key new addr show ?thesis by simp
qed

text \<open>
  Machine \<open>m1\<close> with one network reference whose pool selector names the API group
  \<open>ipam.metal.ironcore.dev\<close>, on a control plane where the claim \<open>m1-eth0\<close> does not
  exist: \<open>CreateMachine\<close> succeeds and has created no claim.
\<close>

theorem other_group_is_not_created:
  "map_of (sim_claims (sim_start (Some 0))) eth0_key = None \<and>
   fst (CreateMachine (m1_deps [other_group_ref]) sim_client m1_request (sim_start (Some 0))) =
     Inr \<lparr>ProviderID = ''ironcore-metal://metal/m1'', NodeName = ''m1''\<rparr> \<and>
   filter is_create
     (snd (snd (CreateMachine (m1_deps [other_group_ref]) sim_client m1_request
        (sim_start (Some 0))))) = []"
  by code_simp

section \<open>A claim that is never bound\<close>

text \<open>
  C6. Take a request that passes validation, and a network reference of its
  provider spec whose pool selector names the cluster-API group, reached after the
  references before it have been allocated. When the lookup of its claim answers
  not-found, the create succeeds with an unbound claim, and every lookup of the poll, as
  many as fit into the deadline, shows no bound claim, then the allocator fails with the
  deadline error, \<open>CreateMachine\<close> returns that error, and \<open>CreateMachine\<close> has issued no
  patch: neither the reservation nor the ignition secret is applied.
\<close>

theorem never_bound_times_out:
  assumes provider: "Provider class = ProviderName d"
      and valid: "validateProviderSpecAndSecret d (Some class) sec = Inr providerSpec"
      and refs: "IPAMConfig providerSpec = before @ networkRef # after"
      and before: "applyIPAddresses cl (metalNamespace d) (machine_Name m) before w =
                     (Inr addressMetaData, w0, calls0)"
      and selector: "IPAMRef networkRef = Some p" "ref_APIGroup p = capi_Group"
      and absent: "Get_claim cl (claim_key (metalNamespace d) (machine_Name m) networkRef) w0 =
                     (Inl NotFound, w1)"
      and created: "Create_claim cl
                      (new_claim (claim_key (metalNamespace d) (machine_Name m) networkRef) p) w1 =
                     (Inr created, w2)"
                   "claim_AddressRef_Name created = []"
      and never: "\<forall>a \<in> set (poll_answers cl
                      (claim_key (metalNamespace d) (machine_Name m) networkRef)
                      poll_attempts w2). unbound_answer a"
  shows "fst (applyCapiIPAddress cl (metalNamespace d) networkRef (machine_Name m) w0) =
           Inl DeadlineExceeded \<and>
         fst (CreateMachine d cl
                (Some \<lparr>MachineClass = Some class, Machine = Some m, Secret = Some sec\<rparr>) w) =
           Inl DeadlineExceeded \<and>
         filter is_patch (snd (snd (CreateMachine d cl
                (Some \<lparr>MachineClass = Some class, Machine = Some m, Secret = Some sec\<rparr>) w))) =
           []"
proof -
  let ?ns = "metalNamespace d"
  let ?key = "claim_key ?ns (machine_Name m) networkRef"
  let ?req = "Some \<lparr>MachineClass = Some class, Machine = Some m, Secret = Some sec\<rparr>"
  obtain rp w3 polls where
    poll: "poll_claim cl ?key poll_attempts created w2 = (rp, w3, polls)"
    by (cases "poll_claim cl ?key poll_attempts created w2")
  from poll_claim_never_bound[OF created(2) never] poll have rp: "rp = Inl DeadlineExceeded"
    by simp
  have nf: "IsNotFound NotFound" by (simp add: IsNotFound_def)
  from capi_poll_error[OF absent nf selector(1) created(1) poll[unfolded rp]]
  have capi: "applyCapiIPAddress cl ?ns networkRef (machine_Name m) w0 =
      (Inl DeadlineExceeded, w3,
       GetClaim ?key # CreateClaim (new_claim ?key p) # polls)" .
  from selector have gate: "(case IPAMRef networkRef of None \<Rightarrow> False
      | Some r \<Rightarrow> ref_APIGroup r = capi_Group)"
    by simp
  from gate capi have here: "applyIPAddresses_loop cl ?ns (machine_Name m) addressMetaData
      (networkRef # after) w0 =
      (Inl DeadlineExceeded, w3, GetClaim ?key # CreateClaim (new_claim ?key p) # polls)"
    by simp
  from before have "applyIPAddresses_loop cl ?ns (machine_Name m) [] before w =
      (Inr addressMetaData, w0, calls0)"
    by (simp add: applyIPAddresses_def)
  from applyIPAddresses_loop_append[OF this, of "networkRef # after"] here refs
  have all: "applyIPAddresses cl ?ns (machine_Name m) (IPAMConfig providerSpec) w =
      (Inl DeadlineExceeded, w3,
       calls0 @ GetClaim ?key # CreateClaim (new_claim ?key p) # polls)"
    by (simp add: applyIPAddresses_def)
  have ne: "\<not> isEmptyCreateRequest ?req"
    by (simp add: isEmptyCreateRequest_def)
  have cm: "CreateMachine d cl ?req w =
      (Inl DeadlineExceeded, w3,
       calls0 @ GetClaim ?key # CreateClaim (new_claim ?key p) # polls)"
    by (rule CreateMachine_allocation_failed[OF ne]) (use provider valid all in simp_all)
  from applyIPAddresses_no_patch[OF all] cm capi show ?thesis by simp
qed

theorem never_bound_times_out_witness:
  "fst (applyCapiIPAddress sim_client ''metal'' eth0_ref ''m1'' (sim_start None)) =
     Inl DeadlineExceeded \<and>
   fst (CreateMachine (m1_deps [eth0_ref]) sim_client m1_request (sim_start None)) =
     Inl DeadlineExceeded \<and>
   filter is_patch (snd (snd (CreateMachine (m1_deps [eth0_ref]) sim_client m1_request
     (sim_start None)))) = []"
proof -
  let ?mc = "\<lparr>Provider = ''ironcore-metal'', ProviderSpec_Raw = ''{}''\<rparr>"
  let ?m = "\<lparr>machine_Name = ''m1''\<rparr>"
  let ?sec = "\<lparr>secret_APIVersion = ''v1'', secret_Kind = ''Secret'',
       secret_Name = ''m1-secret'', secret_Namespace = ''default'',
       secret_Data = [(''userData'', ''#cloud-config'')]\<rparr>"
  let ?p = "\<lparr>ref_Name = ''pool-a'', ref_APIGroup = capi_Group,
             ref_Kind = ''GlobalInClusterIPPool''\<rparr>"
  let ?d = "m1_deps [eth0_ref]"
  have req: "m1_request = Some \<lparr>MachineClass = Some ?mc, Machine = Some ?m,
      Secret = Some ?sec\<rparr>"
    by (simp add: m1_request_def)
  have ns: "metalNamespace ?d = ''metal''" and name: "machine_Name ?m = ''m1''"
    by (simp_all add: m1_deps_def)
  have provider: "Provider ?mc = ProviderName ?d"
    by (simp add: m1_deps_def)
  have valid: "validateProviderSpecAndSecret ?d (Some ?mc) ?sec = Inr (m1_spec [eth0_ref])"
    by code_simp
  have refs: "IPAMConfig (m1_spec [eth0_ref]) = [] @ eth0_ref # []"
    by (simp add: m1_spec_def)
  have before: "applyIPAddresses sim_client (metalNamespace ?d) (machine_Name ?m) []
      (sim_start None) = (Inr [], sim_start None, [])"
    by (simp add: applyIPAddresses_def)
  have selector: "IPAMRef eth0_ref = Some ?p" "ref_APIGroup ?p = capi_Group"
    by (simp_all add: eth0_ref_def)
  have absent: "Get_claim sim_client (claim_key (metalNamespace ?d) (machine_Name ?m) eth0_ref)
      (sim_start None) = (Inl NotFound, sim_start None)"
    by code_simp
  have created: "Create_claim sim_client
      (new_claim (claim_key (metalNamespace ?d) (machine_Name ?m) eth0_ref) ?p) (sim_start None) =
      (Inr (eth0_claim []), sim_with_claim [] None)"
    by code_simp
  have unbound: "claim_AddressRef_Name (eth0_claim []) = []"
    by code_simp
  have never: "\<forall>a \<in> set (poll_answers sim_client
      (claim_key (metalNamespace ?d) (machine_Name ?m) eth0_ref) poll_attempts
      (sim_with_claim [] None)). unbound_answer a"
    by code_simp
  from never_bound_times_out[OF provider valid refs before selector absent created unbound never]
    req ns name
  show ?thesis by simp
qed

text \<open>
  The claim \<open>m1-eth0\<close> exists unbound on a control plane whose address allocator never
  acts: every lookup within the deadline shows it unbound. \<open>CreateMachine\<close> fails, without
  any patch, with the error that the claim is not ready, which is not the deadline error.
\<close>

theorem existing_claim_never_bound_is_not_ready:
  "list_all unbound_answer
     (poll_answers sim_client eth0_key poll_attempts (sim_with_claim [] None)) \<and>
   fst (CreateMachine (m1_deps [eth0_ref]) sim_client m1_request (sim_with_claim [] None)) =
     Inl ClaimNotReady \<and>
   fst (CreateMachine (m1_deps [eth0_ref]) sim_client m1_request (sim_with_claim [] None)) \<noteq>
     Inl DeadlineExceeded \<and>
   snd (snd (CreateMachine (m1_deps [eth0_ref]) sim_client m1_request
     (sim_with_claim [] None))) = [GetClaim eth0_key]"
  by code_simp

section \<open>The metadata handed to the renderer\<close>

text \<open>
  C7. \<open>applyIgnition\<close> hands to the renderer, as metadata, the base metadata of the
  provider spec with the fragments merged into it. Merging the base
  \<open>{"a":1,"b":{"x":1}}\<close> with the fragments \<open>[{"b":{"x":2}}, {"c":3}]\<close> gives
  \<open>{"a":1,"b":{"x":2},"c":3}\<close>. In general the fragments are merged one after the other in
  the order of the list: no fragment leaves the base as it is, and one fragment more is
  merged into the result of the fragments before it. The merge is deep: a key that the
  fragment does not have keeps its value, and where fragment and base both have a map under
  a key, the two maps are merged. A leaf that the last fragment has under a path of keys is
  what the result has under that path, whatever the base and the earlier fragments have
  there.
\<close>

theorem deep_merge_of_fragments:
  "merge_addressMetaData (Some [(''a'', Num 1), (''b'', Obj [(''x'', Num 1)])])
     [[(''b'', Obj [(''x'', Num 2)])], [(''c'', Num 3)]] =
     [(''a'', Num 1), (''b'', Obj [(''x'', Num 2)]), (''c'', Num 3)] \<and>
   merge_addressMetaData base [] = (case base of None \<Rightarrow> [] | Some m \<Rightarrow> m) \<and>
   merge_addressMetaData base (fragments @ [fragment]) =
     Merge (merge_addressMetaData base fragments) fragment \<and>
   (wf_any (Obj fragment) \<and> map_of fragment k = None \<longrightarrow>
      map_of (merge_addressMetaData base (fragments @ [fragment])) k =
      map_of (merge_addressMetaData base fragments) k) \<and>
   (wf_any (Obj fragment) \<and> map_of fragment k = Some (Obj sub) \<and>
    map_of (merge_addressMetaData base fragments) k = Some (Obj sub0) \<longrightarrow>
      map_of (merge_addressMetaData base (fragments @ [fragment])) k =
      Some (Obj (Merge sub0 sub))) \<and>
   (wf_any (Obj fragment) \<and> path \<noteq> [] \<and> at_path fragment path = Some v \<and> is_leaf v \<longrightarrow>
      at_path (merge_addressMetaData base (fragments @ [fragment])) path = Some v) \<and>
   (applyIgnition d m sec providerSpec addressMetaData = Inr s \<longrightarrow>
      (\<exists>userData ignitionContent.
         map_of (secret_Data sec) ''userData'' = Some userData \<and>
         ignition_File d
           \<lparr>cfg_Hostname = machine_Name m, cfg_UserData = userData,
            cfg_MetaData = merge_addressMetaData (Metadata providerSpec) addressMetaData,
            cfg_Ignition = Ignition providerSpec, cfg_DnsServers = DnsServers providerSpec,
            cfg_IgnitionOverride = IgnitionOverride providerSpec\<rparr> = Inr ignitionContent \<and>
         secret_Data s = [(''ignition'', ignitionContent)]))"
proof -
  have example: "merge_addressMetaData (Some [(''a'', Num 1), (''b'', Obj [(''x'', Num 1)])])
     [[(''b'', Obj [(''x'', Num 2)])], [(''c'', Num 3)]] =
     [(''a'', Num 1), (''b'', Obj [(''x'', Num 2)]), (''c'', Num 3)]"
    by (simp add: merge_addressMetaData_def)
  have none: "merge_addressMetaData base [] = (case base of None \<Rightarrow> [] | Some m \<Rightarrow> m)"
    by (simp add: merge_addressMetaData_def)
  note snoc = merge_addressMetaData_snoc[of base fragments fragment]
  have kept: "map_of (merge_addressMetaData base (fragments @ [fragment])) k =
      map_of (merge_addressMetaData base fragments) k"
    if "wf_any (Obj fragment) \<and> map_of fragment k = None"
  proof -
    from that have "distinct (map fst fragment)" by simp
    from map_of_Merge[OF this, of "merge_addressMetaData base fragments" k] that snoc
    show ?thesis by simp
  qed
  have deep: "map_of (merge_addressMetaData base (fragments @ [fragment])) k =
      Some (Obj (Merge sub0 sub))"
    if "wf_any (Obj fragment) \<and> map_of fragment k = Some (Obj sub) \<and>
        map_of (merge_addressMetaData base fragments) k = Some (Obj sub0)"
  proof -
    from that have "distinct (map fst fragment)" by simp
    from map_of_Merge[OF this, of "merge_addressMetaData base fragments" k] that snoc
    show ?thesis by simp
  qed
  have leaf: "at_path (merge_addressMetaData base (fragments @ [fragment])) path = Some v"
    if "wf_any (Obj fragment) \<and> path \<noteq> [] \<and> at_path fragment path = Some v \<and> is_leaf v"
    unfolding snoc using that by (blast intro: at_path_Merge_leaf)
  have handed: "\<exists>userData ignitionContent.
         map_of (secret_Data sec) ''userData'' = Some userData \<and>
         ignition_File d
           \<lparr>cfg_Hostname = machine_Name m, cfg_UserData = userData,
            cfg_MetaData = merge_addressMetaData (Metadata providerSpec) addressMetaData,
            cfg_Ignition = Ignition providerSpec, cfg_DnsServers = DnsServers providerSpec,
            cfg_IgnitionOverride = IgnitionOverride providerSpec\<rparr> = Inr ignitionContent \<and>
         secret_Data s = [(''ignition'', ignitionContent)]"
    if run: "applyIgnition d m sec providerSpec addressMetaData = Inr s"
  proof (cases "map_of (secret_Data sec) ''userData''")
    case None
    with run show ?thesis by (simp add: applyIgnition_def)
  next
    case (Some userData)
    let ?config = "\<lparr>cfg_Hostname = machine_Name m, cfg_UserData = userData,
            cfg_MetaData = merge_addressMetaData (Metadata providerSpec) addressMetaData,
            cfg_Ignition = Ignition providerSpec, cfg_DnsServers = DnsServers providerSpec,
            cfg_IgnitionOverride = IgnitionOverride providerSpec\<rparr>"
    show ?thesis
    proof (cases "ignition_File d ?config")
      case (Inl msg)
      with run Some show ?thesis by (simp add: applyIgnition_def Let_def)
    next
      case (Inr ignitionContent)
      with run Some have "secret_Data s = [(''ignition'', ignitionContent)]"
        by (auto simp: applyIgnition_def Let_def)
      with Some Inr show ?thesis by blast
    qed
  qed
  from example none snoc kept deep leaf handed show ?thesis by blast
qed

theorem deep_merge_of_fragments_witness:
  "at_path (merge_addressMetaData (Some [(''a'', Num 1), (''b'', Obj [(''x'', Num 1), (''y'', Num 5)])])
     ([[(''c'', Num 3)]] @ [[(''b'', Obj [(''x'', Num 2)])]])) [''b'', ''x''] = Some (Num 2) \<and>
   map_of (merge_addressMetaData (Some [(''a'', Num 1), (''b'', Obj [(''x'', Num 1), (''y'', Num 5)])])
     ([[(''c'', Num 3)]] @ [[(''b'', Obj [(''x'', Num 2)])]])) ''b'' =
     Some (Obj [(''x'', Num 2), (''y'', Num 5)]) \<and>
   map_of (merge_addressMetaData (Some [(''a'', Num 1), (''b'', Obj [(''x'', Num 1), (''y'', Num 5)])])
     ([[(''c'', Num 3)]] @ [[(''b'', Obj [(''x'', Num 2)])]])) ''a'' = Some (Num 1) \<and>
   ignition_File (m1_deps [])
     \<lparr>cfg_Hostname = ''m1'', cfg_UserData = ''#cloud-config'',
      cfg_MetaData = merge_addressMetaData (Metadata (m1_spec []))
                       [[(''eth0'', Obj [(''ip'', Str ''10.0.0.5'')])]],
      cfg_Ignition = [], cfg_DnsServers = [], cfg_IgnitionOverride = False\<rparr> =
     Inr ''ignition-content''"
proof -
  let ?base = "Some [(''a'', Num 1), (''b'', Obj [(''x'', Num 1), (''y'', Num 5)])]"
  let ?fragment = "[(''b'', Obj [(''x'', Num 2)])]"
  let ?sec = "\<lparr>secret_APIVersion = ''v1'', secret_Kind = ''Secret'',
       secret_Name = ''m1-secret'', secret_Namespace = ''default'',
       secret_Data = [(''userData'', ''#cloud-config'')]\<rparr>"
  let ?s = "\<lparr>secret_APIVersion = ''v1'', secret_Kind = ''Secret'',
       secret_Name = ''m1-ignition'', secret_Namespace = ''metal'',
       secret_Data = [(''ignition'', ''ignition-content'')]\<rparr>"
  let ?amd = "[[(''eth0'', Obj [(''ip'', Str ''10.0.0.5'')])]]"
  have wf: "wf_any (Obj ?fragment)" by simp
  have leaf: "[''b'', ''x''] \<noteq> [] \<and> at_path ?fragment [''b'', ''x''] = Some (Num 2) \<and>
      is_leaf (Num 2)"
    by simp
  have untouched: "map_of ?fragment ''a'' = None" by simp
  have sub: "map_of ?fragment ''b'' = Some (Obj [(''x'', Num 2)])" by simp
  have before: "map_of (merge_addressMetaData ?base [[(''c'', Num 3)]]) ''b'' =
      Some (Obj [(''x'', Num 1), (''y'', Num 5)])"
    "map_of (merge_addressMetaData ?base [[(''c'', Num 3)]]) ''a'' = Some (Num 1)"
    by (simp_all add: merge_addressMetaData_def)
  have merged: "Merge [(''x'', Num 1), (''y'', Num 5)] [(''x'', Num 2)] =
      [(''x'', Num 2), (''y'', Num 5)]"
    by simp
  have run: "applyIgnition (m1_deps []) \<lparr>machine_Name = ''m1''\<rparr> ?sec (m1_spec []) ?amd = Inr ?s"
    by code_simp
  have fields: "machine_Name \<lparr>machine_Name = ''m1''\<rparr> = ''m1''"
    "Ignition (m1_spec []) = []" "DnsServers (m1_spec []) = []"
    "IgnitionOverride (m1_spec []) = False"
    "map_of (secret_Data ?sec) ''userData'' = Some ''#cloud-config''"
    by (simp_all add: m1_spec_def)
  note thm_a = deep_merge_of_fragments[of ?base "[[(''c'', Num 3)]]" ?fragment "''a''"
      "[(''x'', Num 2)]" "[(''x'', Num 1), (''y'', Num 5)]" "[''b'', ''x'']" "Num 2"
      "m1_deps []" "\<lparr>machine_Name = ''m1''\<rparr>" ?sec "m1_spec []" ?amd ?s]
  note thm_b = deep_merge_of_fragments[of ?base "[[(''c'', Num 3)]]" ?fragment "''b''"
      "[(''x'', Num 2)]" "[(''x'', Num 1), (''y'', Num 5)]" "[''b'', ''x'']" "Num 2"
      "m1_deps []" "\<lparr>machine_Name = ''m1''\<rparr>" ?sec "m1_spec []" ?amd ?s]
  from thm_a wf leaf have a: "at_path (merge_addressMetaData ?base
      ([[(''c'', Num 3)]] @ [?fragment])) [''b'', ''x''] = Some (Num 2)"
    by blast
  from thm_b wf sub before(1) have "map_of (merge_addressMetaData ?base
      ([[(''c'', Num 3)]] @ [?fragment])) ''b'' =
      Some (Obj (Merge [(''x'', Num 1), (''y'', Num 5)] [(''x'', Num 2)]))"
    by blast
  with merged have b: "map_of (merge_addressMetaData ?base
      ([[(''c'', Num 3)]] @ [?fragment])) ''b'' = Some (Obj [(''x'', Num 2), (''y'', Num 5)])"
    by simp
  from thm_a wf untouched before(2) have c: "map_of (merge_addressMetaData ?base
      ([[(''c'', Num 3)]] @ [?fragment])) ''a'' = Some (Num 1)"
    by metis
  from thm_a run obtain userData ignitionContent where
    u: "map_of (secret_Data ?sec) ''userData'' = Some userData" and
    f: "ignition_File (m1_deps [])
           \<lparr>cfg_Hostname = machine_Name \<lparr>machine_Name = ''m1''\<rparr>, cfg_UserData = userData,
            cfg_MetaData = merge_addressMetaData (Metadata (m1_spec [])) ?amd,
            cfg_Ignition = Ignition (m1_spec []), cfg_DnsServers = DnsServers (m1_spec []),
            cfg_IgnitionOverride = IgnitionOverride (m1_spec [])\<rparr> = Inr ignitionContent" and
    g: "secret_Data ?s = [(''ignition'', ignitionContent)]"
    by blast
  from u fields(5) have "userData = ''#cloud-config''" by simp
  moreover from g have "ignitionContent = ''ignition-content''" by simp
  ultimately have d: "ignition_File (m1_deps [])
     \<lparr>cfg_Hostname = ''m1'', cfg_UserData = ''#cloud-config'',
      cfg_MetaData = merge_addressMetaData (Metadata (m1_spec [])) ?amd,
      cfg_Ignition = [], cfg_DnsServers = [], cfg_IgnitionOverride = False\<rparr> =
     Inr ''ignition-content''"
    using f fields(1-4) by simp
  from a b c d show ?thesis by simp
qed

section \<open>A rotation that fails\<close>

text \<open>
  C9. On an event for any file, when reading the kubeconfig fails, or parsing it fails, or
  deriving the REST configuration from it fails, or building the new client fails, the
  provider after the event is the provider before it: the client handle that was installed
  stays installed.
\<close>

theorem reload_failure_retains_client:
  "(os_ReadFile l (kubeconfigPath p) = Inl e \<longrightarrow> fst (on_event l p name) = p) \<and>
   (os_ReadFile l (kubeconfigPath p) = Inr kubeconfigData \<and>
    clientcmd_Load l kubeconfigData = Inl e \<longrightarrow> fst (on_event l p name) = p) \<and>
   (os_ReadFile l (kubeconfigPath p) = Inr kubeconfigData \<and>
    clientcmd_Load l kubeconfigData = Inr kubeconfig \<and>
    ClientConfig l kubeconfig = Inl e \<longrightarrow>
      fst (on_event l p name) = p \<and> snd (setMetalClient l p kubeconfig) = p) \<and>
   (os_ReadFile l (kubeconfigPath p) = Inr kubeconfigData \<and>
    clientcmd_Load l kubeconfigData = Inr kubeconfig \<and>
    ClientConfig l kubeconfig = Inr restConfig \<and>
    client_New l restConfig = Inl e \<longrightarrow>
      fst (on_event l p name) = p \<and> snd (setMetalClient l p kubeconfig) = p)"
  by (simp add: on_event_def getClientConfig_def setMetalClient_def)

theorem reload_failure_retains_client_witness:
  "fst (on_event unreadable_file_libs working_provider ''/etc/metal/kubeconfig'') =
     working_provider \<and>
   fst (on_event unparsable_file_libs working_provider ''/etc/metal/kubeconfig'') =
     working_provider \<and>
   fst (on_event no_context_libs working_provider ''/etc/metal/kubeconfig'') =
     working_provider \<and>
   fst (on_event unreachable_server_libs working_provider ''/etc/metal/kubeconfig'') =
     working_provider \<and>
   Client working_provider = Some 1"
proof -
  have unreadable: "os_ReadFile unreadable_file_libs (kubeconfigPath working_provider) =
      Inl ''no such file or directory''"
    by (simp add: unreadable_file_libs_def)
  have unparsable: "os_ReadFile unparsable_file_libs (kubeconfigPath working_provider) =
      Inr ''apiVersion: v1'' \<and>
    clientcmd_Load unparsable_file_libs ''apiVersion: v1'' =
      Inl ''yaml: line 1: did not find expected key''"
    by (simp add: unparsable_file_libs_def)
  have no_context: "os_ReadFile no_context_libs (kubeconfigPath working_provider) =
      Inr ''apiVersion: v1'' \<and>
    clientcmd_Load no_context_libs ''apiVersion: v1'' = Inr ''apiVersion: v1'' \<and>
    ClientConfig no_context_libs ''apiVersion: v1'' =
      Inl ''invalid configuration: no configuration has been provided''"
    by (simp add: no_context_libs_def)
  have unreachable: "os_ReadFile unreachable_server_libs (kubeconfigPath working_provider) =
      Inr ''apiVersion: v1'' \<and>
    clientcmd_Load unreachable_server_libs ''apiVersion: v1'' = Inr ''apiVersion: v1'' \<and>
    ClientConfig unreachable_server_libs ''apiVersion: v1'' = Inr ''apiVersion: v1'' \<and>
    client_New unreachable_server_libs ''apiVersion: v1'' = Inl ''no route to host''"
    by (simp add: unreachable_server_libs_def)
  from reload_failure_retains_client[of unreadable_file_libs working_provider
      "''no such file or directory''" "''/etc/metal/kubeconfig''"] unreadable
  have a: "fst (on_event unreadable_file_libs working_provider ''/etc/metal/kubeconfig'') =
     working_provider"
    by blast
  from reload_failure_retains_client[of unparsable_file_libs working_provider
      "''yaml: line 1: did not find expected key''" "''/etc/metal/kubeconfig''"
      "''apiVersion: v1''"] unparsable
  have b: "fst (on_event unparsable_file_libs working_provider ''/etc/metal/kubeconfig'') =
     working_provider"
    by blast
  from reload_failure_retains_client[of no_context_libs working_provider
      "''invalid configuration: no configuration has been provided''"
      "''/etc/metal/kubeconfig''" "''apiVersion: v1''" "''apiVersion: v1''"] no_context
  have c: "fst (on_event no_context_libs working_provider ''/etc/metal/kubeconfig'') =
     working_provider"
    by blast
  from reload_failure_retains_client[of unreachable_server_libs working_provider
      "''no route to host''" "''/etc/metal/kubeconfig''" "''apiVersion: v1''"
      "''apiVersion: v1''" "''apiVersion: v1''"] unreachable
  have d: "fst (on_event unreachable_server_libs working_provider ''/etc/metal/kubeconfig'') =
     working_provider"
    by blast
  have e: "Client working_provider = Some 1"
    by (simp add: working_provider_def)
  from a b c d e show ?thesis by simp
qed

end
